theory Spec2Isabelle
  imports Complex_Main "HOL-Library.Word"
begin

section \<open>The PowerSaving score plugin (pkg/trimaran/powersaving/powersaving.go)\<close>

subsection \<open>Machine integers and the scheduler framework's score range\<close>

text \<open>
  Go's \<^verbatim>\<open>int64\<close> is a 64-bit word: \<open>+\<close> and \<open>-\<close> wrap around, comparisons are the
  signed ones (\<open><s\<close>, \<open>\<le>s\<close>), \<open>sint\<close> reads the two's complement value.
\<close>

type_synonym int64 = "64 word"

text \<open>
  Modelled from the spec: \<^verbatim>\<open>framework.MinNodeScore\<close> and \<^verbatim>\<open>framework.MaxNodeScore\<close> are
  constants of the scheduler framework, which is not part of the source tree; the score
  range is the spec's 0 to 100.
\<close>

definition MinNodeScore :: int64 where
  "MinNodeScore = 0"

definition MaxNodeScore :: int64 where
  "MaxNodeScore = 100"

text \<open>
  \<^verbatim>\<open>framework.NodeScore\<close> is a struct of a node name and a score, and
  \<^verbatim>\<open>framework.NodeScoreList\<close> is a slice of such structs (not of pointers to them).
\<close>

record NodeScore =
  NodeScore_Name :: string
  NodeScore_Score :: int64

type_synonym NodeScoreList = "NodeScore list"

text \<open>
  \<^verbatim>\<open>framework.Status\<close>: a nil status pointer (\<open>None\<close>) counts as success; the message of
  a status is not modelled.
\<close>

datatype Code = Success | Error | Unschedulable

datatype Status = NewStatus Code

definition IsSuccess :: "Status option \<Rightarrow> bool" where
  "IsSuccess st = (case st of None \<Rightarrow> True | Some (NewStatus c) \<Rightarrow> c = Success)"

subsection \<open>Package-level variables\<close>

text \<open>
  The variables of the \<^verbatim>\<open>var (...)\<close> block. Their initial values are constants of the
  configuration API (\<^verbatim>\<open>v1beta2.Default...\<close>), so the functions below take the current
  values as an argument and \<open>New\<close> returns the updated ones.
\<close>

record package_vars =
  requestsMilliCores :: int64
  hostLowCPUThreshold :: int64
  hostHighCPUThreshold :: int64
  requestsMultiplier :: real
  keplerEnabled :: bool

subsection \<open>NormalizeScore\<close>

text \<open>
  \<^verbatim>\<open>for _, nodeScore := range scores\<close> copies each element of the slice into the loop
  variable \<open>nodeScore\<close>. The two assignments of the body write to that copy; nothing is
  stored back into \<open>scores\<close>. The second argument is the slice itself, the first the
  elements still to be visited.
\<close>

fun NormalizeScore_range :: "NodeScore list \<Rightarrow> NodeScoreList \<Rightarrow> NodeScoreList" where
  "NormalizeScore_range [] scores = scores"
| "NormalizeScore_range (elem # rest) scores =
     (let nodeScore = elem;
          nodeScore =
            (if MaxNodeScore <s NodeScore_Score nodeScore
             then nodeScore\<lparr>NodeScore_Score := MaxNodeScore\<rparr>
             else if NodeScore_Score nodeScore <s MinNodeScore
             then nodeScore\<lparr>NodeScore_Score := MinNodeScore\<rparr>
             else nodeScore)
      in NormalizeScore_range rest scores)"

text \<open>The caller's list after the call, and the returned status (always nil).\<close>

definition NormalizeScore :: "NodeScoreList \<Rightarrow> NodeScoreList \<times> Status option" where
  "NormalizeScore scores = (NormalizeScore_range scores scores, None)"

subsection \<open>New\<close>

text \<open>
  The plugin arguments carry the two thresholds and the specification of the metrics
  provider, whose type \<open>'spec\<close> belongs to the configuration API.
\<close>

record 'spec PowerSavingArgs =
  TrimaranSpec :: 'spec
  LowCPUThreshold :: int64
  HighCPUThreshold :: int64

datatype 'spec Object = PowerSavingArgsObject "'spec PowerSavingArgs" | OtherObject string

text \<open>
  The threshold repair of \<open>New\<close>, on the package variables: the three \<^verbatim>\<open>if\<close> statements
  in the order of the source.
\<close>

definition New_thresholds :: "'spec PowerSavingArgs \<Rightarrow> package_vars \<Rightarrow> package_vars" where
  "New_thresholds args g =
     (let g = g\<lparr>hostHighCPUThreshold := HighCPUThreshold args\<rparr>;
          g = g\<lparr>hostLowCPUThreshold := LowCPUThreshold args\<rparr>;
          g = (if MaxNodeScore <s hostHighCPUThreshold g
               then g\<lparr>hostHighCPUThreshold := MaxNodeScore\<rparr> else g);
          g = (if hostLowCPUThreshold g <s MinNodeScore
               then g\<lparr>hostLowCPUThreshold := MinNodeScore\<rparr> else g);
          g = (if hostHighCPUThreshold g <s hostLowCPUThreshold g
               then g\<lparr>hostLowCPUThreshold := hostHighCPUThreshold g\<rparr> else g)
      in g)"

text \<open>
  \<open>New\<close> itself. \<^verbatim>\<open>trimaran.NewCollector\<close> is passed as \<open>NewCollector\<close>; both error
  returns happen before any package variable is assigned. The result is the plugin (or
  the error) and the package variables after the call.
\<close>

record ('spec, 'handle, 'collector, 'handler) PowerSaving =
  pl_handle :: 'handle
  pl_eventHandler :: 'handler
  pl_collector :: 'collector
  pl_args :: "'spec PowerSavingArgs"

definition New ::
  "('spec \<Rightarrow> string + 'collector) \<Rightarrow> ('handle \<Rightarrow> 'handler) \<Rightarrow> 'spec Object \<Rightarrow> 'handle \<Rightarrow>
   package_vars \<Rightarrow> (string + ('spec, 'handle, 'collector, 'handler) PowerSaving) \<times> package_vars" where
  "New NewCollector trimaran_New obj h g =
     (case obj of
        OtherObject t \<Rightarrow> (Inl (''want args to be of type PowerSavingArgs, got '' @ t), g)
      | PowerSavingArgsObject args \<Rightarrow>
          (case NewCollector (TrimaranSpec args) of
             Inl err \<Rightarrow> (Inl err, g)
           | Inr coll \<Rightarrow>
               (let g = New_thresholds args g;
                    podAssignEventHandler = trimaran_New h;
                    pl = \<lparr>pl_handle = h, pl_eventHandler = podAssignEventHandler,
                          pl_collector = coll, pl_args = args\<rparr>
                in (Inr pl, g))))"

subsection \<open>Floating point\<close>

text \<open>
  A finite \<^verbatim>\<open>float64\<close> is modelled by the real number it denotes; NaN and the
  infinities are outside the model. A float64 operation returns its exact result rounded
  to the nearest float64, a tie going to the even significand: \<open>binary64_round\<close>, with
  the 53 bits of precision and the smallest exponent -1022 of IEEE 754 binary64 (below
  it the spacing stays that of the subnormal numbers). A result beyond the largest
  float64 would be an infinity and lies outside the model. The comparisons of finite
  values are exact.
\<close>

type_synonym float64 = real

definition round_half_even :: "real \<Rightarrow> int" where
  "round_half_even y =
     (let f = \<lfloor>y\<rfloor>
      in if y - of_int f < 1 / 2 then f
         else if 1 / 2 < y - of_int f then f + 1
         else if even f then f else f + 1)"

definition binary64_exponent :: "real \<Rightarrow> int" where
  "binary64_exponent x = max \<lfloor>log 2 \<bar>x\<bar>\<rfloor> (- 1022)"

definition binary64_round :: "real \<Rightarrow> float64" where
  "binary64_round x =
     (if x = 0 then 0
      else 2 powi (binary64_exponent x - 52) *
           of_int (round_half_even (x / 2 powi (binary64_exponent x - 52))))"

definition fadd :: "float64 \<Rightarrow> float64 \<Rightarrow> float64" where
  "fadd x y = binary64_round (x + y)"

definition fsub :: "float64 \<Rightarrow> float64 \<Rightarrow> float64" where
  "fsub x y = binary64_round (x - y)"

definition fmul :: "float64 \<Rightarrow> float64 \<Rightarrow> float64" where
  "fmul x y = binary64_round (x * y)"

definition fdiv :: "float64 \<Rightarrow> float64 \<Rightarrow> float64" where
  "fdiv x y = binary64_round (x / y)"

text \<open>The conversion \<^verbatim>\<open>float64(i)\<close> of an int64: the signed value, rounded.\<close>

definition float64_of_int64 :: "int64 \<Rightarrow> float64" where
  "float64_of_int64 i = binary64_round (real_of_int (sint i))"

text \<open>
  \<^verbatim>\<open>math.Round\<close>: the nearest integer, halves away from zero. The result is an integer
  valued float64, so no rounding to float64 follows.
\<close>

definition math_Round :: "float64 \<Rightarrow> float64" where
  "math_Round x = (if 0 \<le> x then of_int \<lfloor>x + 1 / 2\<rfloor> else of_int \<lceil>x - 1 / 2\<rceil>)"

text \<open>
  The conversion \<^verbatim>\<open>int64(x)\<close> of a float64 drops the fraction (towards zero). Where
  the result does not fit into int64, Go leaves the value to the implementation: there
  the model returns \<open>impl x\<close>. The functions that convert take \<open>impl\<close> as their first
  argument, and the theorems hold for every \<open>impl\<close>.
\<close>

definition int64_of_float64 :: "(float64 \<Rightarrow> int64) \<Rightarrow> float64 \<Rightarrow> int64" where
  "int64_of_float64 impl x =
     (let t = (if 0 \<le> x then \<lfloor>x\<rfloor> else \<lceil>x\<rceil>)
      in if - (2 ^ 63) \<le> t \<and> t < 2 ^ 63 then word_of_int t else impl x)"

subsection \<open>Pods, nodes and metrics\<close>

text \<open>
  A \<^verbatim>\<open>resource.Quantity\<close> is represented by what \<^verbatim>\<open>MilliValue()\<close> returns for it. A
  \<^verbatim>\<open>v1.ResourceList\<close> maps resource names to quantities; \<^verbatim>\<open>Cpu()\<close> is the entry of
  \<^verbatim>\<open>v1.ResourceCPU\<close>, or the zero quantity where there is none.
\<close>

datatype Quantity = Quantity (MilliValue: int64)

type_synonym ResourceList = "string \<rightharpoonup> Quantity"

definition ResourceCPU :: string where
  "ResourceCPU = ''cpu''"

definition Cpu :: "ResourceList \<Rightarrow> Quantity" where
  "Cpu rl = (case rl ResourceCPU of Some q \<Rightarrow> q | None \<Rightarrow> Quantity 0)"

record Container =
  Container_Name :: string
  Limits :: ResourceList
  Requests :: ResourceList

record Pod =
  Pod_Name :: string
  Containers :: "Container list"
  Overhead :: ResourceList

text \<open>An entry of \<^verbatim>\<open>ScheduledPodsCache\<close>; the timestamp is given by its \<^verbatim>\<open>Unix()\<close> seconds.\<close>

record podInfo =
  Timestamp :: int64
  Pod :: Pod

record PodAssignEventHandler =
  ScheduledPodsCache :: "string \<rightharpoonup> podInfo list"

text \<open>
  The metrics of the load watcher: samples, and the window they were taken over. \<open>CPU\<close>,
  \<open>Average\<close> and \<open>Latest\<close> are string constants of the watcher package, as \<open>ResourceCPU\<close>
  above is one of the core API.
\<close>

record Metric =
  Metric_Name :: string
  Metric_Type :: string
  Operator :: string
  Value :: float64

definition CPU :: string where
  "CPU = ''CPU''"

definition Average :: string where
  "Average = ''AVG''"

definition Latest :: string where
  "Latest = ''Latest''"

record Window =
  Window_Start :: int64
  Window_End :: int64

record WatcherMetrics =
  Window :: Window

text \<open>
  \<^verbatim>\<open>collector.GetNodeMetrics\<close> returns the samples of the node (\<open>None\<close> for a nil slice)
  and all metrics of the watcher, which \<open>Score\<close> reads only where there are samples; the
  collector is represented by that function.
\<close>

type_synonym Collector = "string \<Rightarrow> Metric list option \<times> WatcherMetrics"

text \<open>
  The node of the snapshot: its CPU capacity is all that \<open>Score\<close> reads. The snapshot's
  \<^verbatim>\<open>NodeInfos().Get\<close> fails on a name it does not hold.
\<close>

record NodeInfo =
  Capacity :: ResourceList

record Handle =
  NodeInfos :: "string \<rightharpoonup> NodeInfo"

type_synonym 'spec Plugin = "('spec, Handle, Collector, PodAssignEventHandler) PowerSaving"

subsection \<open>PredictUtilisation\<close>

definition metricsAgentReportingIntervalSeconds :: int64 where
  "metricsAgentReportingIntervalSeconds = 60"

definition PredictUtilisation :: "(float64 \<Rightarrow> int64) \<Rightarrow> package_vars \<Rightarrow> Container \<Rightarrow> int64" where
  "PredictUtilisation impl g container =
     (if Limits container ResourceCPU \<noteq> None
      then MilliValue (Cpu (Limits container))
      else if Requests container ResourceCPU \<noteq> None
      then int64_of_float64 impl
             (math_Round (fmul
                (float64_of_int64 (MilliValue (Cpu (Requests container))))
                (requestsMultiplier g)))
      else requestsMilliCores g)"

subsection \<open>Score\<close>

text \<open>
  The loop over the samples of the node: every CPU sample whose operator is Average or
  Latest assigns \<open>nodeCPUUtilPercent\<close> and sets \<open>cpuMetricFound\<close>. The state is the pair
  of these two variables.
\<close>

fun Score_metrics_loop :: "Metric list \<Rightarrow> float64 \<times> bool \<Rightarrow> float64 \<times> bool" where
  "Score_metrics_loop [] (nodeCPUUtilPercent, cpuMetricFound) =
     (nodeCPUUtilPercent, cpuMetricFound)"
| "Score_metrics_loop (metric # rest) (nodeCPUUtilPercent, cpuMetricFound) =
     (if Metric_Type metric = CPU
      then (if Operator metric = Average \<or> Operator metric = Latest
            then Score_metrics_loop rest (Value metric, True)
            else Score_metrics_loop rest (nodeCPUUtilPercent, cpuMetricFound))
      else Score_metrics_loop rest (nodeCPUUtilPercent, cpuMetricFound))"

text \<open>The inner loop over the containers of a pod adds each prediction to the total.\<close>

fun Score_containers_loop ::
  "(float64 \<Rightarrow> int64) \<Rightarrow> package_vars \<Rightarrow> Container list \<Rightarrow> int64 \<Rightarrow> int64" where
  "Score_containers_loop impl g [] missingCPUUtilMillis = missingCPUUtilMillis"
| "Score_containers_loop impl g (container # rest) missingCPUUtilMillis =
     Score_containers_loop impl g rest (missingCPUUtilMillis + PredictUtilisation impl g container)"

text \<open>The condition of the \<^verbatim>\<open>if\<close> in the loop over the cache (\<^verbatim>\<open>&&\<close> binds tighter).\<close>

definition Score_pod_counts :: "WatcherMetrics \<Rightarrow> podInfo \<Rightarrow> bool" where
  "Score_pod_counts allMetrics info =
     (Window_End (Window allMetrics) <s Timestamp info \<or>
      Timestamp info \<le>s Window_End (Window allMetrics) \<and>
      (Window_End (Window allMetrics) - Timestamp info) <s metricsAgentReportingIntervalSeconds)"

fun Score_pods_loop ::
  "(float64 \<Rightarrow> int64) \<Rightarrow> package_vars \<Rightarrow> WatcherMetrics \<Rightarrow> podInfo list \<Rightarrow> int64 \<Rightarrow> int64" where
  "Score_pods_loop impl g allMetrics [] missingCPUUtilMillis = missingCPUUtilMillis"
| "Score_pods_loop impl g allMetrics (info # rest) missingCPUUtilMillis =
     (if Score_pod_counts allMetrics info
      then (let missingCPUUtilMillis =
                  Score_containers_loop impl g (Containers (Pod info)) missingCPUUtilMillis;
                missingCPUUtilMillis =
                  missingCPUUtilMillis + MilliValue (Cpu (Overhead (Pod info)))
            in Score_pods_loop impl g allMetrics rest missingCPUUtilMillis)
      else Score_pods_loop impl g allMetrics rest missingCPUUtilMillis)"

text \<open>
  Lines 138 to 164: the utilisation in milli-units, and the percentage recomputed with
  the missing utilisation where the capacity is not zero.
\<close>

definition Score_adjust :: "float64 \<Rightarrow> int64 \<Rightarrow> int64 \<Rightarrow> float64" where
  "Score_adjust nodeCPUUtilPercent capMilliValue missingCPUUtilMillis =
     (let nodeCPUCapMillis = float64_of_int64 capMilliValue;
          nodeCPUUtilMillis =
            fmul (fdiv nodeCPUUtilPercent 100) nodeCPUCapMillis
      in if nodeCPUCapMillis \<noteq> 0
         then fdiv
                (fmul 100
                   (fadd nodeCPUUtilMillis
                      (float64_of_int64 missingCPUUtilMillis)))
                nodeCPUCapMillis
         else nodeCPUUtilPercent)"

text \<open>
  Lines 166 to 181: the choice by the two thresholds, on the score the function has so
  far. The branch of \<open>keplerEnabled\<close> is empty in the source.
\<close>

definition Score_thresholds :: "(float64 \<Rightarrow> int64) \<Rightarrow> package_vars \<Rightarrow> float64 \<Rightarrow> int64 \<Rightarrow> int64" where
  "Score_thresholds impl g nodeCPUUtilPercent score =
     (if keplerEnabled g then score
      else if float64_of_int64 (hostHighCPUThreshold g) \<le> nodeCPUUtilPercent
      then int64_of_float64 impl (math_Round nodeCPUUtilPercent)
      else if nodeCPUUtilPercent \<le> float64_of_int64 (hostLowCPUThreshold g)
      then int64_of_float64 impl
             (math_Round (fadd nodeCPUUtilPercent
                (float64_of_int64
                   (hostHighCPUThreshold g - hostLowCPUThreshold g))))
      else int64_of_float64 impl
             (math_Round (fsub nodeCPUUtilPercent
                (float64_of_int64 (hostLowCPUThreshold g)))))"

text \<open>
  \<open>Score\<close>: the node of the snapshot, the metrics of the collector, the CPU sample, the
  pods of the cache under the node's name (none where the map has no entry), and the
  score. The pod to be scheduled is not read.
\<close>

definition Score ::
  "(float64 \<Rightarrow> int64) \<Rightarrow> package_vars \<Rightarrow> 'spec Plugin \<Rightarrow> Pod \<Rightarrow> string \<Rightarrow> int64 \<times> Status option" where
  "Score impl g pl pod nodeName =
     (let score = MinNodeScore
      in case NodeInfos (pl_handle pl) nodeName of
           None \<Rightarrow> (score, Some (NewStatus Error))
         | Some nodeInfo \<Rightarrow>
             (case pl_collector pl nodeName of
                (None, allMetrics) \<Rightarrow> (score, None)
              | (Some metrics, allMetrics) \<Rightarrow>
                  (case Score_metrics_loop metrics (0, False) of
                     (nodeCPUUtilPercent, cpuMetricFound) \<Rightarrow>
                       if \<not> cpuMetricFound then (score, None)
                       else
                         (let missingCPUUtilMillis =
                                Score_pods_loop impl g allMetrics
                                  (case ScheduledPodsCache (pl_eventHandler pl) nodeName of
                                     None \<Rightarrow> [] | Some infos \<Rightarrow> infos)
                                  0;
                              nodeCPUUtilPercent =
                                Score_adjust nodeCPUUtilPercent
                                  (MilliValue (Cpu (Capacity nodeInfo))) missingCPUUtilMillis;
                              score = Score_thresholds impl g nodeCPUUtilPercent score
                          in (score, Some (NewStatus Success))))))"

section \<open>Notions used in the statements\<close>

subsection \<open>Float64 values and conversions\<close>

text \<open>
  The float64 numbers: a significand of at most 53 bits, normalised unless the exponent
  is the smallest one.
\<close>

definition is_binary64 :: "real \<Rightarrow> bool" where
  "is_binary64 v \<longleftrightarrow>
     (\<exists>E m. - 1022 \<le> E \<and> \<bar>m\<bar> \<le> 2 ^ 53 \<and> (2 ^ 52 \<le> \<bar>m\<bar> \<or> E = - 1022) \<and>
        v = 2 powi (E - 52) * of_int m)"

text \<open>The values on which \<^verbatim>\<open>int64(x)\<close> is defined by the language.\<close>

definition fits_int64 :: "real \<Rightarrow> bool" where
  "fits_int64 x \<longleftrightarrow> - (2 ^ 63) \<le> x \<and> x < 2 ^ 63"

text \<open>
  The float64 that \<open>Score\<close> converts to the score, in the branch that it takes: the
  branches of \<open>Score_thresholds\<close> without the conversion.
\<close>

definition Score_thresholds_float :: "package_vars \<Rightarrow> float64 \<Rightarrow> float64" where
  "Score_thresholds_float g nodeCPUUtilPercent =
     (if float64_of_int64 (hostHighCPUThreshold g) \<le> nodeCPUUtilPercent
      then math_Round nodeCPUUtilPercent
      else if nodeCPUUtilPercent \<le> float64_of_int64 (hostLowCPUThreshold g)
      then math_Round (fadd nodeCPUUtilPercent
             (float64_of_int64 (hostHighCPUThreshold g - hostLowCPUThreshold g)))
      else math_Round (fsub nodeCPUUtilPercent
             (float64_of_int64 (hostLowCPUThreshold g))))"

subsection \<open>Samples and pending pods\<close>

text \<open>A sample that the loop over the metrics takes: of type CPU, operator Average or Latest.\<close>

definition is_cpu_sample :: "Metric \<Rightarrow> bool" where
  "is_cpu_sample metric \<longleftrightarrow>
     Metric_Type metric = CPU \<and> (Operator metric = Average \<or> Operator metric = Latest)"

text \<open>
  The predicted load of a pod: the predictions of its containers and its CPU overhead,
  added up in int64.
\<close>

definition pod_prediction :: "(float64 \<Rightarrow> int64) \<Rightarrow> package_vars \<Rightarrow> Pod \<Rightarrow> int64" where
  "pod_prediction impl g p =
     sum_list (map (PredictUtilisation impl g) (Containers p)) + MilliValue (Cpu (Overhead p))"


subsection \<open>Inputs of the examples\<close>

text \<open>
  The conversion of amd64 returns the smallest int64 for every float64 out of range.
\<close>

definition amd64_conversion :: "float64 \<Rightarrow> int64" where
  "amd64_conversion x = word_of_int (- (2 ^ 63))"

definition example_vars :: package_vars where
  "example_vars = \<lparr>requestsMilliCores = 1000, hostLowCPUThreshold = 0,
     hostHighCPUThreshold = 0, requestsMultiplier = 3 / 2, keplerEnabled = False\<rparr>"

definition example_args :: "unit PowerSavingArgs" where
  "example_args = \<lparr>TrimaranSpec = (), LowCPUThreshold = 10, HighCPUThreshold = 30\<rparr>"

definition example_containers :: "Container list" where
  "example_containers =
     [\<lparr>Container_Name = ''limited'', Limits = [ResourceCPU \<mapsto> Quantity 500],
        Requests = [ResourceCPU \<mapsto> Quantity 200]\<rparr>,
      \<lparr>Container_Name = ''requested'', Limits = Map.empty,
        Requests = [ResourceCPU \<mapsto> Quantity 3]\<rparr>,
      \<lparr>Container_Name = ''plain'', Limits = Map.empty, Requests = Map.empty\<rparr>]"

definition example_pod :: Pod where
  "example_pod = \<lparr>Pod_Name = ''pod-a'', Containers = example_containers,
     Overhead = [ResourceCPU \<mapsto> Quantity 45]\<rparr>"

definition example_infos :: "podInfo list" where
  "example_infos =
     [\<lparr>Timestamp = 1000, Pod = example_pod\<rparr>,
      \<lparr>Timestamp = 950, Pod = example_pod\<rparr>,
      \<lparr>Timestamp = 900, Pod = example_pod\<rparr>]"

definition example_metrics :: WatcherMetrics where
  "example_metrics = \<lparr>Window = \<lparr>Window_Start = 930, Window_End = 990\<rparr>\<rparr>"

definition example_samples :: "Metric list" where
  "example_samples =
     [\<lparr>Metric_Name = ''a'', Metric_Type = CPU, Operator = Average, Value = 20\<rparr>,
      \<lparr>Metric_Name = ''b'', Metric_Type = ''Memory'', Operator = Average, Value = 70\<rparr>,
      \<lparr>Metric_Name = ''c'', Metric_Type = CPU, Operator = Latest, Value = 40\<rparr>,
      \<lparr>Metric_Name = ''d'', Metric_Type = CPU, Operator = ''MAX'', Value = 90\<rparr>]"

definition example_plugin :: "Collector \<Rightarrow> unit Plugin" where
  "example_plugin coll =
     \<lparr>pl_handle = \<lparr>NodeInfos =
          [''node-a'' \<mapsto> \<lparr>Capacity = [ResourceCPU \<mapsto> Quantity 4000]\<rparr>,
           ''node-z'' \<mapsto> \<lparr>Capacity = Map.empty\<rparr>]\<rparr>,
      pl_eventHandler = \<lparr>ScheduledPodsCache = [''node-a'' \<mapsto> example_infos]\<rparr>,
      pl_collector = coll,
      pl_args = example_args\<rparr>"

section \<open>Properties\<close>

declare of_int_sint [simp del]

lemmas example_defs =
  amd64_conversion_def example_vars_def example_args_def example_containers_def
  example_pod_def example_infos_def example_metrics_def example_samples_def example_plugin_def

lemmas int64_eval =
  MinNodeScore_def MaxNodeScore_def metricsAgentReportingIntervalSeconds_def
  word_sless_alt word_sle_eq Let_def

subsection \<open>NormalizeScore\<close>

lemma NormalizeScore_range_scores: "NormalizeScore_range xs scores = scores"
  by (induction xs) (simp_all add: Let_def)

lemma NormalizeScore_unchanged: "NormalizeScore scores = (scores, None)"
  by (simp add: NormalizeScore_def NormalizeScore_range_scores)

text \<open>
  Claim C1 says that after \<open>NormalizeScore\<close> every score of the list lies between
  \<open>MinNodeScore\<close> and \<open>MaxNodeScore\<close>, a score above the maximum having become the
  maximum. The function leaves the list as it was (\<open>NormalizeScore_unchanged\<close>): a list
  with the score 150 for a node still holds 150 after the call, and 150 is above
  \<open>MaxNodeScore\<close>.
\<close>

theorem NormalizeScore_keeps_score_above_max:
  "NormalizeScore [\<lparr>NodeScore_Name = ''node-a'', NodeScore_Score = 150\<rparr>]
     = ([\<lparr>NodeScore_Name = ''node-a'', NodeScore_Score = 150\<rparr>], None)
   \<and> MaxNodeScore <s (150 :: int64)"
  by (simp add: NormalizeScore_def MaxNodeScore_def Let_def)

subsection \<open>The thresholds that New leaves\<close>

lemma New_thresholds_high_le_max:
  "hostHighCPUThreshold (New_thresholds args g) \<le>s MaxNodeScore"
  by (simp add: New_thresholds_def Let_def word_sle_eq word_sless_alt)

lemma New_thresholds_low_le_high:
  "hostLowCPUThreshold (New_thresholds args g) \<le>s hostHighCPUThreshold (New_thresholds args g)"
  by (simp add: New_thresholds_def Let_def word_sle_eq word_sless_alt)

lemma New_thresholds_min_le_low:
  "MinNodeScore \<le>s hostLowCPUThreshold (New_thresholds args g)
     \<longleftrightarrow> MinNodeScore \<le>s HighCPUThreshold args"
  by (auto simp add: New_thresholds_def int64_eval)

lemma New_thresholds_cases:
  "hostLowCPUThreshold (New_thresholds args g) = hostHighCPUThreshold (New_thresholds args g) \<or>
   (0 \<le> sint (hostLowCPUThreshold (New_thresholds args g)) \<and>
    sint (hostLowCPUThreshold (New_thresholds args g))
      \<le> sint (hostHighCPUThreshold (New_thresholds args g)) \<and>
    sint (hostHighCPUThreshold (New_thresholds args g)) \<le> 100)"
  by (auto simp add: New_thresholds_def int64_eval)

lemma New_thresholds_kepler: "keplerEnabled (New_thresholds args g) = keplerEnabled g"
  by (simp add: New_thresholds_def Let_def)

lemma New_accepts:
  "NewCollector (TrimaranSpec args) = Inr coll \<Longrightarrow>
   snd (New NewCollector trimaran_New (PowerSavingArgsObject args) h g) = New_thresholds args g"
  by (simp add: New_def Let_def)

text \<open>
  Claim C2 says that for all arguments that \<open>New\<close> accepts the thresholds in use
  afterwards satisfy MinNodeScore \<open>\<le>\<close> low \<open>\<le>\<close> high \<open>\<le>\<close> MaxNodeScore. \<open>New\<close> bounds the
  high threshold from above only and the low threshold from below only, before it
  lowers the low threshold to the high one: low \<open>\<le>\<close> high \<open>\<le>\<close> MaxNodeScore always holds
  (\<open>New_thresholds_low_le_high\<close>, \<open>New_thresholds_high_le_max\<close>), but a high threshold
  below \<open>MinNodeScore\<close> stays, and takes the low threshold with it
  (\<open>New_thresholds_min_le_low\<close>). With the thresholds 5 and -1 both end up as -1.
\<close>

theorem New_keeps_negative_high_threshold:
  "hostLowCPUThreshold (snd (New (\<lambda>spec. Inr coll) trimaran_New
      (PowerSavingArgsObject
         \<lparr>TrimaranSpec = spec, LowCPUThreshold = 5, HighCPUThreshold = - 1\<rparr>) h g)) = - 1
   \<and> hostHighCPUThreshold (snd (New (\<lambda>spec. Inr coll) trimaran_New
      (PowerSavingArgsObject
         \<lparr>TrimaranSpec = spec, LowCPUThreshold = 5, HighCPUThreshold = - 1\<rparr>) h g)) = - 1
   \<and> (- 1 :: int64) <s MinNodeScore"
  by (simp add: New_def New_thresholds_def int64_eval)

subsection \<open>Rounding to float64\<close>

text \<open>
  \<open>binary64_round\<close> is monotone (\<open>binary64_round_mono\<close>), returns float64 numbers
  (\<open>is_binary64_round\<close>), leaves a float64 number as it is (\<open>binary64_round_fixed\<close>), and
  so is idempotent; the integers of magnitude up to \<open>2 ^ 53\<close> are float64 numbers
  (\<open>is_binary64_int\<close>).
\<close>

lemma round_half_even_int [simp]: "round_half_even (of_int k) = k"
  by (simp add: round_half_even_def)

lemma round_half_even_cases:
  "round_half_even y = \<lfloor>y\<rfloor> \<or> round_half_even y = \<lfloor>y\<rfloor> + 1"
  by (simp add: round_half_even_def Let_def)

lemma round_half_even_mono:
  assumes "x \<le> y"
  shows "round_half_even x \<le> round_half_even y"
proof (cases "\<lfloor>x\<rfloor> = \<lfloor>y\<rfloor>")
  case True
  then show ?thesis
    using assms by (auto simp add: round_half_even_def Let_def)
next
  case False
  then have "\<lfloor>x\<rfloor> + 1 \<le> \<lfloor>y\<rfloor>"
    using floor_mono [OF assms] by linarith
  then show ?thesis
    using round_half_even_cases [of x] round_half_even_cases [of y] by linarith
qed

lemma round_half_even_minus: "round_half_even (- x) = - round_half_even x"
proof (cases "x \<in> \<int>")
  case True
  then obtain k where "x = of_int k" by (auto elim: Ints_cases)
  then show ?thesis
    by (metis of_int_minus round_half_even_int)
next
  case False
  then have n: "x \<noteq> real_of_int \<lfloor>x\<rfloor>"
    by (metis Ints_of_int)
  then have f: "\<lfloor>- x\<rfloor> = - \<lfloor>x\<rfloor> - 1"
    by (simp add: floor_minus ceiling_altdef)
  show ?thesis
    by (auto simp add: round_half_even_def Let_def f)
qed

lemma powr_powi: "2 powr (real_of_int k) = (2::real) powi k"
  by (simp add: powr_real_of_int power_int_def power_one_over inverse_eq_divide)

lemma floor_log2_eq:
  assumes "0 < x"
  shows "\<lfloor>log 2 x\<rfloor> = k \<longleftrightarrow> 2 powi k \<le> x \<and> x < 2 powi (k + 1)"
  using floor_log_eq_powr_iff [of x 2 k] assms powr_powi [of k] powr_powi [of "k + 1"]
  by simp

lemma floor_log2_bounds:
  assumes "0 < x"
  shows "2 powi \<lfloor>log 2 x\<rfloor> \<le> x" and "x < 2 powi (\<lfloor>log 2 x\<rfloor> + 1)"
  using floor_log2_eq [OF assms, of "\<lfloor>log 2 x\<rfloor>"] by simp_all

lemma binary64_exponent_ge: "- 1022 \<le> binary64_exponent x"
  by (simp add: binary64_exponent_def)

lemma binary64_exponent_upper:
  assumes "x \<noteq> 0"
  shows "\<bar>x\<bar> < 2 powi (binary64_exponent x + 1)"
proof -
  have "\<bar>x\<bar> < 2 powi (\<lfloor>log 2 \<bar>x\<bar>\<rfloor> + 1)"
    using assms by (intro floor_log2_bounds) simp
  also have "\<dots> \<le> 2 powi (binary64_exponent x + 1)"
    by (intro power_int_increasing) (simp_all add: binary64_exponent_def)
  finally show ?thesis .
qed

lemma binary64_exponent_lower:
  assumes "x \<noteq> 0" and "binary64_exponent x \<noteq> - 1022"
  shows "2 powi binary64_exponent x \<le> \<bar>x\<bar>"
proof -
  have "binary64_exponent x = \<lfloor>log 2 \<bar>x\<bar>\<rfloor>"
    using assms(2) by (simp add: binary64_exponent_def max_def split: if_splits)
  then show ?thesis
    using floor_log2_bounds(1) [of "\<bar>x\<bar>"] assms(1) by simp
qed

lemma binary64_exponent_eq:
  assumes "2 powi E \<le> \<bar>x\<bar>" and "\<bar>x\<bar> < 2 powi (E + 1)" and "- 1022 \<le> E"
  shows "binary64_exponent x = E"
proof -
  have "0 < \<bar>x\<bar>"
    using assms(1) by (smt (verit) zero_less_power_int)
  then have "\<lfloor>log 2 \<bar>x\<bar>\<rfloor> = E"
    using assms by (simp add: floor_log2_eq)
  then show ?thesis
    using assms(3) by (simp add: binary64_exponent_def)
qed

lemma binary64_exponent_subnormal:
  assumes "\<bar>x\<bar> < 2 powi (- 1022)" and False: "x \<noteq> 0"
  shows "binary64_exponent x = - 1022"
proof -
  have "\<lfloor>log 2 \<bar>x\<bar>\<rfloor> < - 1022"
  proof (rule ccontr)
    assume "\<not> \<lfloor>log 2 \<bar>x\<bar>\<rfloor> < - 1022"
    then have "2 powi (- 1022) \<le> (2::real) powi \<lfloor>log 2 \<bar>x\<bar>\<rfloor>"
      by (intro power_int_increasing) simp_all
    also have "\<dots> \<le> \<bar>x\<bar>"
      using False by (intro floor_log2_bounds) simp
    finally show False using assms by simp
  qed
  then show ?thesis by (simp add: binary64_exponent_def)
qed

lemma binary64_round_grid:
  assumes "x / 2 powi (binary64_exponent x - 52) = of_int j"
  shows "binary64_round x = x"
proof (cases "x = 0")
  case True
  then show ?thesis by (simp add: binary64_round_def)
next
  case False
  have "x = 2 powi (binary64_exponent x - 52) * of_int j"
    using assms by (simp add: field_simps)
  then show ?thesis
    using False assms by (simp add: binary64_round_def)
qed

lemma binary64_round_0 [simp]: "binary64_round 0 = 0"
  by (simp add: binary64_round_def)

lemma powi_split: "(2::real) powi (E + 1) = 2 powi (E - 52) * 2 ^ 53"
  and powi_split': "(2::real) powi E = 2 powi (E - 52) * 2 ^ 52"
proof -
  have "(2::real) powi (E + 1) = 2 powi ((E - 52) + 53)"
    by (rule arg_cong [where f = "\<lambda>n. 2 powi n"]) simp
  also have "\<dots> = 2 powi (E - 52) * 2 powi 53" by (subst power_int_add) simp_all
  finally show "(2::real) powi (E + 1) = 2 powi (E - 52) * 2 ^ 53" by simp
  have "(2::real) powi E = 2 powi ((E - 52) + 52)"
    by (rule arg_cong [where f = "\<lambda>n. 2 powi n"]) simp
  also have "\<dots> = 2 powi (E - 52) * 2 powi 52" by (subst power_int_add) simp_all
  finally show "(2::real) powi E = 2 powi (E - 52) * 2 ^ 52" by simp
qed

lemma grid_le:
  assumes "(a::int) \<le> b"
  shows "2 powi (E - 52) * real_of_int a \<le> 2 powi (E - 52) * real_of_int b"
  using assms by (intro mult_left_mono) simp_all

lemma grid_less:
  assumes "(a::int) < b"
  shows "2 powi (E - 52) * real_of_int a < 2 powi (E - 52) * real_of_int b"
  using assms by (intro mult_strict_left_mono) simp_all

lemma grid_div: "2 powi (E - 52) * real_of_int m / 2 powi (E - 52) = real_of_int m"
  by simp

lemma grid_div_top: "2 powi (E - 52) * real_of_int (2 * j) / 2 powi (E + 1 - 52) = real_of_int j"
proof -
  have "(2::real) powi (E + 1 - 52) = 2 powi ((E - 52) + 1)"
    by (rule arg_cong [where f = "\<lambda>n. 2 powi n"]) simp
  also have "\<dots> = 2 powi (E - 52) * 2" by (subst power_int_add) simp_all
  finally show ?thesis by simp
qed

lemma binary64_round_fixed:
  assumes "is_binary64 v"
  shows "binary64_round v = v"
proof -
  from assms obtain E m where E: "- 1022 \<le> E" and m: "\<bar>m\<bar> \<le> 2 ^ 53"
    and n: "2 ^ 52 \<le> \<bar>m\<bar> \<or> E = - 1022" and v: "v = 2 powi (E - 52) * of_int m"
    by (auto simp add: is_binary64_def)
  have a: "\<bar>v\<bar> = 2 powi (E - 52) * real_of_int \<bar>m\<bar>"
    by (simp add: v abs_mult)
  consider (zero) "m = 0" | (top) "\<bar>m\<bar> = 2 ^ 53" | (normal) "2 ^ 52 \<le> \<bar>m\<bar>" "\<bar>m\<bar> < 2 ^ 53"
    | (sub) "m \<noteq> 0" "\<bar>m\<bar> < 2 ^ 52" "E = - 1022"
    using m n by linarith
  then show ?thesis
  proof cases
    case zero
    then show ?thesis by (simp add: v)
  next
    case top
    have "\<bar>v\<bar> = 2 powi (E + 1)"
      unfolding a top powi_split by simp
    moreover have "(2::real) powi (E + 1) < 2 powi (E + 1 + 1)"
      by (intro power_int_strict_increasing) simp_all
    ultimately have e: "binary64_exponent v = E + 1"
      using E by (intro binary64_exponent_eq) simp_all
    have "even \<bar>m\<bar>" unfolding top by simp
    then have "even m" by simp
    then obtain j where j: "m = 2 * j" by (auto elim: evenE)
    have "v / 2 powi (E + 1 - 52) = of_int j"
      unfolding v j by (rule grid_div_top)
    then show ?thesis
      by (intro binary64_round_grid [of v j]) (simp only: e)
  next
    case normal
    have "2 powi E \<le> \<bar>v\<bar>"
      unfolding a powi_split' [of E] using grid_le [OF normal(1), of E] by simp
    moreover have "\<bar>v\<bar> < 2 powi (E + 1)"
      unfolding a powi_split [of E] using grid_less [OF normal(2), of E] by simp
    ultimately have e: "binary64_exponent v = E"
      using E by (intro binary64_exponent_eq)
    have "v / 2 powi (E - 52) = of_int m"
      unfolding v by (rule grid_div)
    then show ?thesis
      by (intro binary64_round_grid [of v m]) (simp only: e)
  next
    case sub
    have "\<bar>v\<bar> < 2 powi E"
      unfolding a powi_split' [of E] using grid_less [OF sub(2), of E] by simp
    moreover have "v \<noteq> 0" using sub(1) by (simp add: v)
    ultimately have e: "binary64_exponent v = E"
      using sub(3) by (simp add: binary64_exponent_subnormal)
    have "v / 2 powi (E - 52) = of_int m"
      unfolding v by (rule grid_div)
    then show ?thesis
      by (intro binary64_round_grid [of v m]) (simp only: e)
  qed
qed

lemma round_half_even_bounds:
  assumes "\<bar>y\<bar> < 2 ^ 53"
  shows "\<bar>round_half_even y\<bar> \<le> 2 ^ 53"
proof -
  have "round_half_even (of_int (- (2 ^ 53))) \<le> round_half_even y"
    using assms by (intro round_half_even_mono) simp
  moreover have "round_half_even y \<le> round_half_even (of_int (2 ^ 53))"
    using assms by (intro round_half_even_mono) simp
  ultimately show ?thesis
    by (simp only: round_half_even_int)
qed

lemma round_half_even_large:
  assumes "2 ^ 52 \<le> \<bar>y\<bar>"
  shows "2 ^ 52 \<le> \<bar>round_half_even y\<bar>"
proof (cases "0 \<le> y")
  case True
  then have "round_half_even (of_int (2 ^ 52)) \<le> round_half_even y"
    using assms by (intro round_half_even_mono) simp
  then show ?thesis
    by (simp only: round_half_even_int)
next
  case False
  then have "round_half_even y \<le> round_half_even (of_int (- (2 ^ 52)))"
    using assms by (intro round_half_even_mono) simp
  then show ?thesis
    by (simp only: round_half_even_int)
qed

lemma scaled_upper:
  assumes "x \<noteq> 0"
  shows "\<bar>x / 2 powi (binary64_exponent x - 52)\<bar> < 2 ^ 53"
proof -
  have "\<bar>x\<bar> < 2 powi (binary64_exponent x - 52) * 2 ^ 53"
    using binary64_exponent_upper [OF assms] by (simp only: powi_split)
  then have "\<bar>x\<bar> / 2 powi (binary64_exponent x - 52) < 2 ^ 53"
    by (simp add: pos_divide_less_eq mult.commute)
  then show ?thesis by (simp add: abs_divide)
qed

lemma scaled_lower:
  assumes "x \<noteq> 0" and "binary64_exponent x \<noteq> - 1022"
  shows "2 ^ 52 \<le> \<bar>x / 2 powi (binary64_exponent x - 52)\<bar>"
proof -
  have "2 powi (binary64_exponent x - 52) * 2 ^ 52 \<le> \<bar>x\<bar>"
    using binary64_exponent_lower [OF assms] by (simp only: powi_split' [symmetric])
  then have "2 ^ 52 \<le> \<bar>x\<bar> / 2 powi (binary64_exponent x - 52)"
    by (simp add: pos_le_divide_eq mult.commute)
  then show ?thesis by (simp add: abs_divide)
qed

lemma is_binary64_round: "is_binary64 (binary64_round x)"
proof (cases "x = 0")
  case True
  have "is_binary64 0"
    unfolding is_binary64_def by (rule exI [of _ "- 1022"], rule exI [of _ 0]) simp
  then show ?thesis using True by simp
next
  case False
  let ?E = "binary64_exponent x"
  let ?m = "round_half_even (x / 2 powi (?E - 52))"
  have "- 1022 \<le> ?E" by (rule binary64_exponent_ge)
  moreover have "\<bar>?m\<bar> \<le> 2 ^ 53"
    by (intro round_half_even_bounds scaled_upper False)
  moreover have "2 ^ 52 \<le> \<bar>?m\<bar> \<or> ?E = - 1022"
    using round_half_even_large [OF scaled_lower [OF False]] by blast
  moreover have "binary64_round x = 2 powi (?E - 52) * of_int ?m"
    using False by (simp add: binary64_round_def)
  ultimately show ?thesis
    unfolding is_binary64_def by blast
qed

lemma binary64_round_idem: "binary64_round (binary64_round x) = binary64_round x"
  by (intro binary64_round_fixed is_binary64_round)

lemma binary64_round_minus: "binary64_round (- x) = - binary64_round x"
proof -
  have "binary64_exponent (- x) = binary64_exponent x"
    by (simp add: binary64_exponent_def)
  then show ?thesis
    by (simp add: binary64_round_def round_half_even_minus)
qed

lemma binary64_round_nonneg:
  assumes "0 \<le> x"
  shows "0 \<le> binary64_round x"
proof -
  have "round_half_even (of_int 0) \<le> round_half_even (x / 2 powi (binary64_exponent x - 52))"
    using assms by (intro round_half_even_mono) simp
  then have "0 \<le> round_half_even (x / 2 powi (binary64_exponent x - 52))"
    by (simp only: round_half_even_int)
  then show ?thesis
    by (simp add: binary64_round_def)
qed

lemma binary64_exponent_mono:
  assumes "0 < x" and "x \<le> y"
  shows "binary64_exponent x \<le> binary64_exponent y"
proof -
  have "log 2 \<bar>x\<bar> \<le> log 2 \<bar>y\<bar>"
    using assms by simp
  then have "\<lfloor>log 2 \<bar>x\<bar>\<rfloor> \<le> \<lfloor>log 2 \<bar>y\<bar>\<rfloor>"
    by (rule floor_mono)
  then show ?thesis
    by (simp add: binary64_exponent_def)
qed

lemma binary64_round_mono_pos:
  assumes "0 < x" and "x \<le> y"
  shows "binary64_round x \<le> binary64_round y"
proof (cases "binary64_exponent x = binary64_exponent y")
  case True
  have "round_half_even (x / 2 powi (binary64_exponent y - 52))
      \<le> round_half_even (y / 2 powi (binary64_exponent y - 52))"
    using assms by (intro round_half_even_mono divide_right_mono) simp_all
  then show ?thesis
    using assms grid_le [of _ _ "binary64_exponent y"] by (simp add: binary64_round_def True)
next
  case False
  let ?Ex = "binary64_exponent x" and ?Ey = "binary64_exponent y"
  have lt: "?Ex + 1 \<le> ?Ey"
    using False binary64_exponent_mono [OF assms] by linarith
  have x0: "x \<noteq> 0" and y0: "y \<noteq> 0" using assms by simp_all
  have "\<bar>round_half_even (x / 2 powi (?Ex - 52))\<bar> \<le> 2 ^ 53"
    by (intro round_half_even_bounds scaled_upper x0)
  then have "round_half_even (x / 2 powi (?Ex - 52)) \<le> 2 ^ 53"
    by linarith
  from grid_le [OF this, of ?Ex]
  have "binary64_round x \<le> 2 powi (?Ex + 1)"
    using x0 by (simp add: binary64_round_def powi_split)
  also have "\<dots> \<le> 2 powi ?Ey"
    using lt by (intro power_int_increasing) simp_all
  also have "\<dots> \<le> binary64_round y"
  proof -
    have n: "?Ey \<noteq> - 1022"
      using lt binary64_exponent_ge [of x] by linarith
    have "0 \<le> round_half_even (y / 2 powi (?Ey - 52))"
    proof -
      have "round_half_even (of_int 0) \<le> round_half_even (y / 2 powi (?Ey - 52))"
        using assms by (intro round_half_even_mono) simp
      then show ?thesis by (simp only: round_half_even_int)
    qed
    moreover have "2 ^ 52 \<le> \<bar>round_half_even (y / 2 powi (?Ey - 52))\<bar>"
      by (intro round_half_even_large scaled_lower y0 n)
    ultimately have "2 ^ 52 \<le> round_half_even (y / 2 powi (?Ey - 52))"
      by linarith
    from grid_le [OF this, of ?Ey]
    show ?thesis
      using y0 by (simp add: binary64_round_def powi_split' [of ?Ey])
  qed
  finally show ?thesis .
qed

lemma binary64_round_mono:
  assumes "x \<le> y"
  shows "binary64_round x \<le> binary64_round y"
proof -
  consider (pos) "0 < x" | (zero) "x = 0" | (mixed) "x < 0" "0 \<le> y" | (neg) "x < 0" "y < 0"
    by linarith
  then show ?thesis
  proof cases
    case pos
    then show ?thesis using assms by (rule binary64_round_mono_pos)
  next
    case zero
    then show ?thesis using assms binary64_round_nonneg [of y] by simp
  next
    case mixed
    have "0 \<le> binary64_round (- x)"
      using mixed(1) by (intro binary64_round_nonneg) simp
    then have "binary64_round x \<le> 0"
      by (simp add: binary64_round_minus)
    also have "0 \<le> binary64_round y"
      using mixed(2) by (rule binary64_round_nonneg)
    finally show ?thesis .
  next
    case neg
    have "binary64_round (- y) \<le> binary64_round (- x)"
      using neg assms by (intro binary64_round_mono_pos) simp_all
    then show ?thesis
      by (simp add: binary64_round_minus)
  qed
qed

lemma is_binary64_dyadic:
  assumes "- 1022 \<le> E" and "2 ^ 52 \<le> \<bar>m\<bar>" and "\<bar>m\<bar> \<le> 2 ^ 53"
  shows "is_binary64 (2 powi (E - 52) * of_int m)"
  unfolding is_binary64_def using assms by blast

lemma is_binary64_int:
  assumes "\<bar>k\<bar> \<le> 2 ^ 53"
  shows "is_binary64 (real_of_int k)"
proof (cases "k = 0")
  case True
  have "is_binary64 0"
    unfolding is_binary64_def by (rule exI [of _ "- 1022"], rule exI [of _ 0]) simp
  then show ?thesis using True by simp
next
  case False
  define e where "e = \<lfloor>log 2 \<bar>real_of_int k\<bar>\<rfloor>"
  have pos: "0 < \<bar>real_of_int k\<bar>" using False by simp
  have lo: "2 powi e \<le> \<bar>real_of_int k\<bar>" and up: "\<bar>real_of_int k\<bar> < 2 powi (e + 1)"
    unfolding e_def by (rule floor_log2_bounds [OF pos])+
  have e0: "0 \<le> e"
  proof (rule ccontr)
    assume "\<not> 0 \<le> e"
    then have "(2::real) powi (e + 1) \<le> 2 powi 0"
      by (intro power_int_increasing) simp_all
    then have "\<bar>real_of_int k\<bar> < 1" using up by simp
    then show False using False by linarith
  qed
  have e53: "e \<le> 53"
  proof (rule ccontr)
    assume "\<not> e \<le> 53"
    then have "(2::real) powi 54 \<le> 2 powi e"
      by (intro power_int_increasing) simp_all
    then have "(2::real) ^ 54 \<le> \<bar>real_of_int k\<bar>" using lo by simp
    moreover have "\<bar>real_of_int k\<bar> \<le> 2 ^ 53"
      using assms by (metis of_int_abs of_int_le_iff of_int_numeral of_int_power)
    ultimately show False by simp
  qed
  define n where "n = nat e"
  have e: "e = int n" using e0 by (simp add: n_def)
  have n53: "n \<le> 53" using e53 by (simp add: e)
  have lo': "2 ^ n \<le> \<bar>k\<bar>"
  proof -
    have "real_of_int (2 ^ n) \<le> real_of_int \<bar>k\<bar>"
      using lo unfolding e by simp
    then show ?thesis by (simp only: of_int_le_iff)
  qed
  have up': "\<bar>k\<bar> < 2 ^ (n + 1)"
  proof -
    have "real_of_int \<bar>k\<bar> < real_of_int (2 ^ (n + 1))"
      using up unfolding e by (simp add: power_int_add)
    then show ?thesis by (simp only: of_int_less_iff)
  qed
  show ?thesis
  proof (cases "n = 53")
    case True
    then have "\<bar>k\<bar> = 2 ^ 53" using lo' assms by simp
    then have "even \<bar>k\<bar>" by simp
    then have "even k" by simp
    then obtain j where j: "k = 2 * j" by (auto elim: evenE)
    have "\<bar>j\<bar> = 2 ^ 52" using \<open>\<bar>k\<bar> = 2 ^ 53\<close> by (simp add: j abs_mult)
    then have "is_binary64 (2 powi (53 - 52) * of_int j)"
      by (intro is_binary64_dyadic) simp_all
    then show ?thesis by (simp add: j)
  next
    case False
    then have n52: "n \<le> 52" using n53 by simp
    let ?m = "k * 2 ^ (52 - n)"
    have p: "(2::int) ^ n * 2 ^ (52 - n) = 2 ^ 52" "(2::int) ^ (n + 1) * 2 ^ (52 - n) = 2 ^ 53"
      using n52 by (simp_all add: power_add [symmetric])
    have "2 ^ n * 2 ^ (52 - n) \<le> \<bar>k\<bar> * (2::int) ^ (52 - n)"
      using lo' by (intro mult_right_mono) simp_all
    then have m1: "2 ^ 52 \<le> \<bar>?m\<bar>"
      by (simp add: p abs_mult)
    have "\<bar>k\<bar> * (2::int) ^ (52 - n) < 2 ^ (n + 1) * 2 ^ (52 - n)"
      using up' by (intro mult_strict_right_mono) simp_all
    then have "\<bar>k\<bar> * (2::int) ^ (52 - n) < 2 ^ 53"
      by (simp only: p)
    then have m2: "\<bar>?m\<bar> \<le> 2 ^ 53"
      by (simp add: abs_mult)
    have "is_binary64 (2 powi (int n - 52) * of_int ?m)"
      using m1 m2 by (intro is_binary64_dyadic) simp_all
    moreover have "(2::real) powi (int n - 52) * 2 ^ (52 - n) = 1"
    proof -
      have "(2::real) ^ (52 - n) = 2 powi (int (52 - n))" by simp
      also have "int (52 - n) = 52 - int n" using n52 by simp
      finally have "(2::real) powi (int n - 52) * 2 ^ (52 - n) = 2 powi ((int n - 52) + (52 - int n))"
        by (subst power_int_add) simp_all
      then show ?thesis by simp
    qed
    then have "2 powi (int n - 52) * real_of_int ?m = real_of_int k"
      by (simp add: mult.assoc mult.left_commute)
    ultimately show ?thesis by (simp only:)
  qed
qed

lemma binary64_round_int:
  assumes "\<bar>k\<bar> \<le> 2 ^ 53"
  shows "binary64_round (real_of_int k) = real_of_int k"
  by (intro binary64_round_fixed is_binary64_int assms)

lemma binary64_round_eval:
  assumes "2 powi E \<le> \<bar>x\<bar>" and "\<bar>x\<bar> < 2 powi (E + 1)" and "- 1022 \<le> E"
  shows "binary64_round x
    = 2 powi (E - 52) * of_int (round_half_even (x / 2 powi (E - 52)))"
proof -
  have "(0::real) < 2 powi E" by simp
  then have "0 < \<bar>x\<bar>" using assms(1) by (rule less_le_trans)
  then have "x \<noteq> 0" by simp
  then show ?thesis
    by (simp add: binary64_round_def binary64_exponent_eq [OF assms])
qed

lemma binary64_round_numeral:
  "numeral n \<le> (2::int) ^ 53 \<Longrightarrow> binary64_round (numeral n) = numeral n"
  using binary64_round_int [of "numeral n"] by simp

subsection \<open>Conversions\<close>

lemma float64_of_int64_small:
  assumes "\<bar>sint i\<bar> \<le> 2 ^ 53"
  shows "float64_of_int64 i = real_of_int (sint i)"
  using assms by (simp add: float64_of_int64_def binary64_round_int)

lemmas float64_eval =
  fadd_def fsub_def fmul_def fdiv_def float64_of_int64_def int64_of_float64_def math_Round_def
  binary64_round_numeral

text \<open>
  The roundings of the examples: 0.4 is not a float64, and neither is 4000 times the
  float64 next to it, which rounds to 1600.
\<close>

lemma example_rounded:
  "binary64_round (9 / 2) = 9 / 2"
  "binary64_round (235 / 2) = 235 / 2"
  by (subst binary64_round_eval [where E = 2], simp_all add: round_half_even_def Let_def)
     (subst binary64_round_eval [where E = 6], simp_all add: round_half_even_def Let_def)

lemma example_inexact:
  "binary64_round (40 / 100) = 7205759403792794 / 2 ^ 54"
  "binary64_round (7205759403792794 / 2 ^ 54 * 4000) = 1600"
  "binary64_round (470000 / 4000) = 235 / 2"
  by (subst binary64_round_eval [where E = "- 2"], simp_all add: round_half_even_def Let_def)
     (subst binary64_round_eval [where E = 10], simp_all add: round_half_even_def Let_def,
      subst binary64_round_eval [where E = 6], simp_all add: round_half_even_def Let_def)

lemma sint_sub_no_overflow:
  fixes a b :: int64
  assumes "sint b \<le> sint a" and "sint a - sint b < 2 ^ 63"
  shows "sint (a - b) = sint a - sint b"
proof -
  have "sint (a - b) = signed_take_bit 63 (sint a - sint b)"
    by (simp add: sint_word_ariths)
  also have "\<dots> = sint a - sint b"
    using assms by (intro signed_take_bit_int_eq_self) auto
  finally show ?thesis .
qed

lemma float64_of_int64_eq_0_iff:
  shows "float64_of_int64 i = 0 \<longleftrightarrow> i = 0"
proof
  assume "i = 0"
  then show "float64_of_int64 i = 0"
    by (simp add: float64_of_int64_def binary64_round_0)
next
  assume z: "float64_of_int64 i = 0"
  show "i = 0"
  proof (rule ccontr)
    assume "i \<noteq> 0"
    then have "sint i \<noteq> 0" by (simp add: signed_eq_0_iff)
    then consider "1 \<le> sint i" | "sint i \<le> - 1" by linarith
    then show False
    proof cases
      case 1
      then have "binary64_round (real_of_int 1) \<le> binary64_round (real_of_int (sint i))"
        by (intro binary64_round_mono) simp
      moreover have "binary64_round (real_of_int 1) = real_of_int 1"
        by (rule binary64_round_int) simp
      ultimately show False using z by (simp add: float64_of_int64_def)
    next
      case 2
      then have "binary64_round (real_of_int (sint i)) \<le> binary64_round (real_of_int (- 1))"
        by (intro binary64_round_mono) simp
      moreover have "binary64_round (real_of_int (- 1)) = real_of_int (- 1)"
        by (rule binary64_round_int) simp
      ultimately show False using z by (simp add: float64_of_int64_def)
    qed
  qed
qed

lemma math_Round_mono: "x \<le> y \<Longrightarrow> math_Round x \<le> math_Round y"
proof -
  assume le: "x \<le> y"
  have f: "\<lfloor>x + 1 / 2\<rfloor> \<le> \<lfloor>y + 1 / 2\<rfloor>" using le by (intro floor_mono) simp
  have c: "\<lceil>x - 1 / 2\<rceil> \<le> \<lceil>y - 1 / 2\<rceil>" using le by (intro ceiling_mono) simp
  have m: "\<lceil>x - 1 / 2\<rceil> \<le> \<lfloor>y + 1 / 2\<rfloor>" if "x < 0" "0 \<le> y"
  proof -
    have "\<lceil>x - 1 / 2\<rceil> \<le> 0" using that by (simp add: ceiling_le_iff)
    also have "0 \<le> \<lfloor>y + 1 / 2\<rfloor>" using that by (simp add: le_floor_iff)
    finally show ?thesis .
  qed
  show ?thesis
    using le f c m by (auto simp add: math_Round_def)
qed

lemma math_Round_nearest: "\<bar>math_Round x - x\<bar> \<le> 1 / 2"
proof (cases "0 \<le> x")
  case True
  have "real_of_int \<lfloor>x + 1 / 2\<rfloor> \<le> x + 1 / 2"
    and "x + 1 / 2 < real_of_int \<lfloor>x + 1 / 2\<rfloor> + 1"
    by linarith+
  then have "\<bar>real_of_int \<lfloor>x + 1 / 2\<rfloor> - x\<bar> \<le> 1 / 2" by linarith
  then show ?thesis using True by (simp only: math_Round_def if_True)
next
  case False
  have "x - 1 / 2 \<le> real_of_int \<lceil>x - 1 / 2\<rceil>"
    and "real_of_int \<lceil>x - 1 / 2\<rceil> < x - 1 / 2 + 1"
    by linarith+
  then have "\<bar>real_of_int \<lceil>x - 1 / 2\<rceil> - x\<bar> \<le> 1 / 2" by linarith
  then show ?thesis using False by (simp only: math_Round_def if_False)
qed

lemma math_Round_away:
  assumes "\<bar>math_Round x - x\<bar> = 1 / 2"
  shows "\<bar>x\<bar> < \<bar>math_Round x\<bar>"
proof (cases "0 \<le> x")
  case True
  have m: "math_Round x = real_of_int \<lfloor>x + 1 / 2\<rfloor>"
    using True by (simp only: math_Round_def if_True)
  have "x + 1 / 2 < real_of_int \<lfloor>x + 1 / 2\<rfloor> + 1"
    by linarith
  then show ?thesis using True assms unfolding m by linarith
next
  case False
  have m: "math_Round x = real_of_int \<lceil>x - 1 / 2\<rceil>"
    using False by (simp only: math_Round_def if_False)
  have "real_of_int \<lceil>x - 1 / 2\<rceil> < x - 1 / 2 + 1"
    by linarith
  then show ?thesis using False assms unfolding m by linarith
qed

lemma math_Round_Ints: "math_Round x \<in> \<int>"
  unfolding math_Round_def by simp

lemma int64_of_float64_int:
  assumes "- (2 ^ 63) \<le> k" and "k < 2 ^ 63"
  shows "int64_of_float64 impl (real_of_int k) = word_of_int k"
  using assms by (simp add: int64_of_float64_def)

lemma sint_word_of_int_fits:
  assumes "- (2 ^ 63) \<le> k" and "k < 2 ^ 63"
  shows "sint (word_of_int k :: int64) = k"
  using assms by (simp add: sint_sbintrunc' signed_take_bit_int_eq_self)

lemma int64_of_float64_fits:
  assumes "x \<in> \<int>" and "fits_int64 x"
  shows "real_of_int (sint (int64_of_float64 impl x)) = x"
proof -
  from assms(1) obtain k where x: "x = real_of_int k" by (auto elim: Ints_cases)
  have "real_of_int (- (2 ^ 63)) \<le> real_of_int k" and "real_of_int k < real_of_int (2 ^ 63)"
    using assms(2) by (simp_all add: fits_int64_def x)
  then have k: "- (2 ^ 63) \<le> k" "k < 2 ^ 63"
    by (simp_all only: of_int_le_iff of_int_less_iff)
  show ?thesis
    by (simp add: x int64_of_float64_int [OF k] sint_word_of_int_fits [OF k])
qed

lemma int64_of_float64_sle:
  assumes "x \<in> \<int>" and "fits_int64 x" and "y \<in> \<int>" and "fits_int64 y" and "x \<le> y"
  shows "int64_of_float64 impl x \<le>s int64_of_float64 impl y"
proof -
  have "real_of_int (sint (int64_of_float64 impl x)) \<le> real_of_int (sint (int64_of_float64 impl y))"
    using assms by (simp add: int64_of_float64_fits)
  then show ?thesis
    by (simp only: word_sle_eq of_int_le_iff)
qed

subsection \<open>The choice by the thresholds\<close>

lemma Score_thresholds_equal:
  assumes k: "\<not> keplerEnabled g"
    and eq: "hostLowCPUThreshold g = hostHighCPUThreshold g"
    and u: "binary64_round util = util"
  shows "Score_thresholds impl g util score = int64_of_float64 impl (math_Round util)"
  using k eq u binary64_round_0
  by (auto simp add: Score_thresholds_def fadd_def float64_of_int64_def)

lemma Score_thresholds_band:
  assumes k: "\<not> keplerEnabled g"
    and b: "0 \<le> sint (hostLowCPUThreshold g)"
           "sint (hostLowCPUThreshold g) \<le> sint (hostHighCPUThreshold g)"
           "sint (hostHighCPUThreshold g) \<le> 100"
  shows "Score_thresholds impl g util score =
    (if real_of_int (sint (hostHighCPUThreshold g)) \<le> util
     then int64_of_float64 impl (math_Round util)
     else if util \<le> real_of_int (sint (hostLowCPUThreshold g))
     then int64_of_float64 impl
            (math_Round (fadd util
               (real_of_int (sint (hostHighCPUThreshold g))
                  - real_of_int (sint (hostLowCPUThreshold g)))))
     else int64_of_float64 impl
            (math_Round (fsub util (real_of_int (sint (hostLowCPUThreshold g))))))"
proof -
  have h: "float64_of_int64 (hostHighCPUThreshold g)
      = real_of_int (sint (hostHighCPUThreshold g))"
    using b by (intro float64_of_int64_small) simp
  have l: "float64_of_int64 (hostLowCPUThreshold g)
      = real_of_int (sint (hostLowCPUThreshold g))"
    using b by (intro float64_of_int64_small) simp
  have d: "float64_of_int64 (hostHighCPUThreshold g - hostLowCPUThreshold g)
      = real_of_int (sint (hostHighCPUThreshold g)) - real_of_int (sint (hostLowCPUThreshold g))"
    using b by (subst float64_of_int64_small) (simp_all add: sint_sub_no_overflow)
  show ?thesis
    using k by (simp add: Score_thresholds_def h l d)
qed

text \<open>
  Claim C3: with the thresholds lowT \<open>\<le>\<close> highT that \<open>New\<close> leaves, and for every float64
  \<open>util\<close>, the score of the threshold policy is the rounded \<open>util\<close> where util \<open>\<ge>\<close> highT,
  the rounded \<open>util + (highT - lowT)\<close> where util \<open>\<le>\<close> lowT, and the rounded \<open>util - lowT\<close>
  where lowT \<open><\<close> util \<open><\<close> highT. The three cases cover every \<open>util\<close>; where two of them
  meet (util = lowT = highT) their values agree, so util = highT has the value of the high
  branch and util = lowT that of the low branch. The rounding is \<open>math_Round\<close>, to the
  nearest integer and for a half away from zero, followed by the conversion to int64.
\<close>

theorem Score_thresholds_zones:
  assumes k: "\<not> keplerEnabled g"
    and u: "binary64_round util = util"
    and lo: "lowT = real_of_int (sint (hostLowCPUThreshold (New_thresholds args g)))"
    and hi: "highT = real_of_int (sint (hostHighCPUThreshold (New_thresholds args g)))"
  shows "lowT \<le> highT \<and>
    (highT \<le> util \<longrightarrow>
       Score_thresholds impl (New_thresholds args g) util score =
         int64_of_float64 impl (math_Round util)) \<and>
    (util \<le> lowT \<longrightarrow>
       Score_thresholds impl (New_thresholds args g) util score =
         int64_of_float64 impl
           (math_Round (fadd util (highT - lowT)))) \<and>
    (lowT < util \<and> util < highT \<longrightarrow>
       Score_thresholds impl (New_thresholds args g) util score =
         int64_of_float64 impl
           (math_Round (fsub util lowT))) \<and>
    math_Round util \<in> \<int> \<and> \<bar>math_Round util - util\<bar> \<le> 1 / 2 \<and>
    (\<bar>math_Round util - util\<bar> = 1 / 2 \<longrightarrow> \<bar>util\<bar> < \<bar>math_Round util\<bar>)"
proof -
  let ?g = "New_thresholds args g"
  have k': "\<not> keplerEnabled ?g" using k by (simp add: New_thresholds_kepler)
  have rounded: "math_Round util \<in> \<int> \<and> \<bar>math_Round util - util\<bar> \<le> 1 / 2 \<and>
    (\<bar>math_Round util - util\<bar> = 1 / 2 \<longrightarrow> \<bar>util\<bar> < \<bar>math_Round util\<bar>)"
    using math_Round_Ints math_Round_nearest math_Round_away by blast
  consider (eq) "hostLowCPUThreshold ?g = hostHighCPUThreshold ?g"
    | (band) "0 \<le> sint (hostLowCPUThreshold ?g)"
           "sint (hostLowCPUThreshold ?g) \<le> sint (hostHighCPUThreshold ?g)"
           "sint (hostHighCPUThreshold ?g) \<le> 100"
    using New_thresholds_cases [of args g] by blast
  then have "lowT \<le> highT \<and>
    (highT \<le> util \<longrightarrow>
       Score_thresholds impl ?g util score =
         int64_of_float64 impl (math_Round util)) \<and>
    (util \<le> lowT \<longrightarrow>
       Score_thresholds impl ?g util score =
         int64_of_float64 impl
           (math_Round (fadd util (highT - lowT)))) \<and>
    (lowT < util \<and> util < highT \<longrightarrow>
       Score_thresholds impl ?g util score =
         int64_of_float64 impl
           (math_Round (fsub util lowT)))"
  proof cases
    case eq
    then have "lowT = highT" by (simp add: lo hi)
    then show ?thesis
      using Score_thresholds_equal [OF k' eq u] u by (auto simp add: fadd_def)
  next
    case band
    have le: "lowT \<le> highT" using band by (simp add: lo hi)
    have both: "fadd util (highT - lowT) = util" if "highT \<le> util" "util \<le> lowT"
    proof -
      have "highT - lowT = 0" using that le by simp
      then show ?thesis using u by (simp add: fadd_def)
    qed
    show ?thesis
      using Score_thresholds_band [OF k' band, where util = util and score = score] le both
      by (auto simp add: lo [symmetric] hi [symmetric])
  qed
  with rounded show ?thesis by blast
qed

text \<open>
  The scenario of the specification, thresholds 10 and 30: the utilisation 5 scores 25,
  30 scores 30 and 20 scores 10.
\<close>

theorem Score_thresholds_zones_witness:
  "\<not> keplerEnabled example_vars \<and>
   Score_thresholds amd64_conversion (New_thresholds example_args example_vars) 5 0 = 25 \<and>
   Score_thresholds amd64_conversion (New_thresholds example_args example_vars) 30 0 = 30 \<and>
   Score_thresholds amd64_conversion (New_thresholds example_args example_vars) 20 0 = 10"
proof -
  have k: "\<not> keplerEnabled example_vars" by (simp add: example_vars_def)
  have u: "binary64_round 5 = 5" "binary64_round 30 = 30" "binary64_round 20 = 20"
    by (simp_all add: binary64_round_numeral)
  note z = Score_thresholds_zones [where args = example_args and score = 0
      and impl = amd64_conversion, OF k _ refl refl]
  have lo: "real_of_int (sint (hostLowCPUThreshold (New_thresholds example_args example_vars))) = 10"
    and hi: "real_of_int (sint (hostHighCPUThreshold (New_thresholds example_args example_vars))) = 30"
    by (simp_all add: New_thresholds_def example_defs int64_eval)
  have "Score_thresholds amd64_conversion (New_thresholds example_args example_vars) 5 0 = 25"
    using z [OF u(1)] unfolding lo hi by (simp add: amd64_conversion_def float64_eval)
  moreover have "Score_thresholds amd64_conversion (New_thresholds example_args example_vars) 30 0 = 30"
    using z [OF u(2)] unfolding lo hi by (simp add: amd64_conversion_def float64_eval)
  moreover have "Score_thresholds amd64_conversion (New_thresholds example_args example_vars) 20 0 = 10"
    using z [OF u(3)] unfolding lo hi by (simp add: amd64_conversion_def float64_eval)
  ultimately show ?thesis using k by simp
qed

subsection \<open>The status of Score and the sample it uses\<close>

lemma Score_metrics_loop_none:
  "\<forall>m \<in> set ms. \<not> is_cpu_sample m \<Longrightarrow> Score_metrics_loop ms s = s"
  by (induction ms s rule: Score_metrics_loop.induct) (auto simp add: is_cpu_sample_def)

lemma Score_metrics_loop_filter:
  "Score_metrics_loop ms (v, b) =
     (if filter is_cpu_sample ms = [] then (v, b)
      else (Value (last (filter is_cpu_sample ms)), True))"
  by (induction ms "(v, b)" arbitrary: v b rule: Score_metrics_loop.induct)
     (auto simp add: is_cpu_sample_def)

lemma Score_scored:
  assumes "NodeInfos (pl_handle pl) nodeName = Some nodeInfo"
    and "pl_collector pl nodeName = (Some metrics, allMetrics)"
    and "filter is_cpu_sample metrics \<noteq> []"
  shows "Score impl g pl pod nodeName =
    (Score_thresholds impl g
       (Score_adjust (Value (last (filter is_cpu_sample metrics)))
          (MilliValue (Cpu (Capacity nodeInfo)))
          (Score_pods_loop impl g allMetrics
             (case ScheduledPodsCache (pl_eventHandler pl) nodeName of
                None \<Rightarrow> [] | Some infos \<Rightarrow> infos) 0))
       MinNodeScore,
     Some (NewStatus Success))"
  using assms by (simp add: Score_def Score_metrics_loop_filter Let_def)

text \<open>
  Claim C4: \<open>Score\<close> returns an error status exactly when the snapshot does not hold the
  node. Where the node is found and the collector has no metrics for it, or the metrics
  hold no CPU sample with operator Average or Latest, it returns \<open>MinNodeScore\<close> with a
  nil status, which is a success.
\<close>

theorem Score_error_iff_node_unresolved:
  "(snd (Score impl g pl pod nodeName) = Some (NewStatus Error)
      \<longleftrightarrow> NodeInfos (pl_handle pl) nodeName = None) \<and>
   (\<not> IsSuccess (snd (Score impl g pl pod nodeName))
      \<longleftrightarrow> NodeInfos (pl_handle pl) nodeName = None) \<and>
   (NodeInfos (pl_handle pl) nodeName \<noteq> None \<and> fst (pl_collector pl nodeName) = None
      \<longrightarrow> Score impl g pl pod nodeName = (MinNodeScore, None)) \<and>
   (NodeInfos (pl_handle pl) nodeName \<noteq> None \<and>
    fst (pl_collector pl nodeName) = Some metrics \<and> (\<forall>m \<in> set metrics. \<not> is_cpu_sample m)
      \<longrightarrow> Score impl g pl pod nodeName = (MinNodeScore, None))"
  by (auto simp add: Score_def Let_def IsSuccess_def Score_metrics_loop_none
      split: option.splits prod.splits)

text \<open>
  An unknown node gives the error status; a known node without metrics, and one whose
  only sample is of memory, give the minimum score and no error.
\<close>

theorem Score_error_iff_node_unresolved_witness:
  "snd (Score amd64_conversion example_vars (example_plugin (\<lambda>n. (None, example_metrics)))
          example_pod ''node-b'') = Some (NewStatus Error) \<and>
   Score amd64_conversion example_vars (example_plugin (\<lambda>n. (None, example_metrics)))
     example_pod ''node-a'' = (0, None) \<and>
   Score amd64_conversion example_vars
     (example_plugin (\<lambda>n. (Some [example_samples ! 1], example_metrics)))
     example_pod ''node-a'' = (0, None)"
proof -
  have "snd (Score amd64_conversion example_vars (example_plugin (\<lambda>n. (None, example_metrics)))
          example_pod ''node-b'') = Some (NewStatus Error)"
    using Score_error_iff_node_unresolved [of amd64_conversion example_vars
        "example_plugin (\<lambda>n. (None, example_metrics))" example_pod "''node-b''" "[]"]
    by (simp add: example_plugin_def)
  moreover have "Score amd64_conversion example_vars (example_plugin (\<lambda>n. (None, example_metrics)))
     example_pod ''node-a'' = (0, None)"
    using Score_error_iff_node_unresolved [of amd64_conversion example_vars
        "example_plugin (\<lambda>n. (None, example_metrics))" example_pod "''node-a''" "[]"]
    by (simp add: example_plugin_def MinNodeScore_def)
  moreover have "Score amd64_conversion example_vars
     (example_plugin (\<lambda>n. (Some [example_samples ! 1], example_metrics)))
     example_pod ''node-a'' = (0, None)"
    using Score_error_iff_node_unresolved [of amd64_conversion example_vars
        "example_plugin (\<lambda>n. (Some [example_samples ! 1], example_metrics))"
        example_pod "''node-a''" "[example_samples ! 1]"]
    by (simp add: example_plugin_def example_samples_def MinNodeScore_def is_cpu_sample_def CPU_def)
  ultimately show ?thesis by simp
qed

text \<open>
  Claim C9: where the metrics of the node hold several CPU samples with operator Average
  or Latest, \<open>Score\<close> uses the value of the last of them in the order of the list: the
  loop leaves that value in \<open>nodeCPUUtilPercent\<close>, and the score is computed from it.
\<close>

theorem Score_uses_last_cpu_sample:
  assumes "NodeInfos (pl_handle pl) nodeName = Some nodeInfo"
    and "pl_collector pl nodeName = (Some (before @ metric # after), allMetrics)"
    and "is_cpu_sample metric"
    and "\<forall>m \<in> set after. \<not> is_cpu_sample m"
  shows "Score_metrics_loop (before @ metric # after) (0, False) = (Value metric, True) \<and>
    Score impl g pl pod nodeName =
    (Score_thresholds impl g
       (Score_adjust (Value metric)
          (MilliValue (Cpu (Capacity nodeInfo)))
          (Score_pods_loop impl g allMetrics
             (case ScheduledPodsCache (pl_eventHandler pl) nodeName of
                None \<Rightarrow> [] | Some infos \<Rightarrow> infos) 0))
       MinNodeScore,
     Some (NewStatus Success))"
proof -
  have f: "filter is_cpu_sample (before @ metric # after) = filter is_cpu_sample before @ [metric]"
    using assms(3,4) by (simp add: filter_empty_conv)
  have l: "last (filter is_cpu_sample (before @ metric # after)) = metric"
    and n: "filter is_cpu_sample (before @ metric # after) \<noteq> []"
    by (simp_all only: f last_snoc) simp
  have "Score_metrics_loop (before @ metric # after) (0, False) = (Value metric, True)"
    by (simp only: Score_metrics_loop_filter l n if_False)
  moreover note Score_scored [OF assms(1,2) n, of impl g pod, unfolded l]
  ultimately show ?thesis by simp
qed

subsection \<open>The pending pods\<close>

lemma Score_containers_loop_sum:
  "Score_containers_loop impl g cs m = m + sum_list (map (PredictUtilisation impl g) cs)"
  by (induction cs arbitrary: m) (simp_all add: add.assoc)

lemma Score_pods_loop_step:
  "Score_pods_loop impl g allMetrics (info # rest) m =
     Score_pods_loop impl g allMetrics rest
       (if Score_pod_counts allMetrics info then m + pod_prediction impl g (Pod info) else m)"
  by (simp add: Let_def Score_containers_loop_sum pod_prediction_def add.assoc)

lemma Score_pods_loop_sum:
  "Score_pods_loop impl g allMetrics infos m =
     m + sum_list (map (\<lambda>info. pod_prediction impl g (Pod info))
                    (filter (Score_pod_counts allMetrics) infos))"
  by (induction infos arbitrary: m)
     (simp_all add: Score_pods_loop_step add.assoc del: Score_pods_loop.simps(2))





lemma example_thresholds:
  "New_thresholds example_args example_vars =
     \<lparr>requestsMilliCores = 1000, hostLowCPUThreshold = 10, hostHighCPUThreshold = 30,
      requestsMultiplier = 3 / 2, keplerEnabled = False\<rparr>"
  by (simp add: New_thresholds_def example_vars_def example_args_def int64_eval)

lemma example_predictions:
  "map (PredictUtilisation amd64_conversion
     \<lparr>requestsMilliCores = 1000, hostLowCPUThreshold = lo, hostHighCPUThreshold = hi,
      requestsMultiplier = 3 / 2, keplerEnabled = False\<rparr>) example_containers = [500, 5, 1000]"
  by (simp add: example_containers_def PredictUtilisation_def Cpu_def float64_eval
      example_rounded)

lemma example_pod_prediction:
  "pod_prediction amd64_conversion
     \<lparr>requestsMilliCores = 1000, hostLowCPUThreshold = lo, hostHighCPUThreshold = hi,
      requestsMultiplier = 3 / 2, keplerEnabled = False\<rparr> example_pod = 1550"
  by (simp add: pod_prediction_def example_pod_def example_predictions Cpu_def)



subsection \<open>PredictUtilisation\<close>

text \<open>
  Claim C6: a container with a CPU limit is predicted at the limit, whatever its request
  and the multiplier are; one without a limit and with a CPU request at the request
  times \<open>requestsMultiplier\<close> (rounded and converted to int64); one with neither at
  \<open>requestsMilliCores\<close>. \<open>PredictUtilisation\<close> is a total function: it has a value on
  every container and no error.
\<close>

theorem PredictUtilisation_precedence:
  "(Limits container ResourceCPU = Some limit \<longrightarrow>
      PredictUtilisation impl g container = MilliValue limit) \<and>
   (Limits container ResourceCPU = None \<and> Requests container ResourceCPU = Some request \<longrightarrow>
      PredictUtilisation impl g container =
        int64_of_float64 impl
          (math_Round (fmul
             (float64_of_int64 (MilliValue request)) (requestsMultiplier g)))) \<and>
   (Limits container ResourceCPU = None \<and> Requests container ResourceCPU = None \<longrightarrow>
      PredictUtilisation impl g container = requestsMilliCores g)"
  by (simp add: PredictUtilisation_def Cpu_def)

text \<open>
  The limit 500 wins over the request 200; the request 200 alone gives 300 with the
  multiplier 1.5; a container with neither gives the default 1000.
\<close>

theorem PredictUtilisation_precedence_witness:
  "PredictUtilisation amd64_conversion example_vars (example_containers ! 0) = 500 \<and>
   PredictUtilisation amd64_conversion example_vars
     ((example_containers ! 0)\<lparr>Limits := Map.empty\<rparr>) = 300 \<and>
   PredictUtilisation amd64_conversion example_vars (example_containers ! 2) = 1000"
proof -
  have "PredictUtilisation amd64_conversion example_vars (example_containers ! 0) = 500"
    using PredictUtilisation_precedence [of "example_containers ! 0" "Quantity 500"
        amd64_conversion example_vars "Quantity 200"]
    by (simp add: example_containers_def)
  moreover have "PredictUtilisation amd64_conversion example_vars
     ((example_containers ! 0)\<lparr>Limits := Map.empty\<rparr>) = 300"
    using PredictUtilisation_precedence [of "(example_containers ! 0)\<lparr>Limits := Map.empty\<rparr>"
        "Quantity 500" amd64_conversion example_vars "Quantity 200"]
    by (simp add: example_containers_def example_vars_def amd64_conversion_def float64_eval)
  moreover have "PredictUtilisation amd64_conversion example_vars (example_containers ! 2) = 1000"
    using PredictUtilisation_precedence [of "example_containers ! 2" "Quantity 500"
        amd64_conversion example_vars "Quantity 200"]
    by (simp add: example_containers_def example_vars_def)
  ultimately show ?thesis by simp
qed

text \<open>
  Claim C10: for a container with a CPU request and no limit the prediction is the
  float64 product of the request and \<open>requestsMultiplier\<close>, rounded by \<open>math_Round\<close> and
  converted to int64. The rounded product is an integer at most one half away from the
  product, and further from zero than the product where it is exactly one half away;
  where it fits into int64 it is the value returned.
\<close>

theorem PredictUtilisation_request_rounded:
  assumes "Limits container ResourceCPU = None"
    and "Requests container ResourceCPU = Some request"
    and p: "product = fmul
        (float64_of_int64 (MilliValue request)) (requestsMultiplier g)"
  shows "PredictUtilisation impl g container
      = int64_of_float64 impl (math_Round product) \<and>
    math_Round product \<in> \<int> \<and>
    \<bar>math_Round product - product\<bar> \<le> 1 / 2 \<and>
    (\<bar>math_Round product - product\<bar> = 1 / 2 \<longrightarrow> \<bar>product\<bar> < \<bar>math_Round product\<bar>) \<and>
    (fits_int64 (math_Round product) \<longrightarrow>
       real_of_int (sint (PredictUtilisation impl g container)) = math_Round product)"
proof -
  have e: "PredictUtilisation impl g container
      = int64_of_float64 impl (math_Round product)"
    using assms by (simp add: PredictUtilisation_def Cpu_def)
  show ?thesis
    using math_Round_Ints [of product] math_Round_nearest [of product] math_Round_away [of product]
      int64_of_float64_fits [OF math_Round_Ints, of product impl]
    by (simp add: e)
qed

text \<open>
  The request 3 with the multiplier 1.5 has the product 4.5: the prediction is 5, where
  dropping the fraction would give 4.
\<close>

theorem PredictUtilisation_request_rounded_witness:
  "PredictUtilisation amd64_conversion example_vars (example_containers ! 1) = 5 \<and>
   \<lfloor>3 * (3 / 2) :: real\<rfloor> = 4"
proof -
  have "PredictUtilisation amd64_conversion example_vars (example_containers ! 1) = 5"
    using PredictUtilisation_request_rounded [where container = "example_containers ! 1"
        and request = "Quantity 3" and product = "9 / 2" and impl = amd64_conversion
        and g = example_vars]
    by (simp add: example_containers_def example_vars_def float64_eval example_rounded)
  then show ?thesis by simp
qed

subsection \<open>Evaluating Score on the example\<close>

lemma example_missing:
  "Score_pods_loop amd64_conversion
     \<lparr>requestsMilliCores = 1000, hostLowCPUThreshold = lo, hostHighCPUThreshold = hi,
      requestsMultiplier = 3 / 2, keplerEnabled = False\<rparr> example_metrics example_infos 0 = 3100"
proof -
  have "filter (Score_pod_counts example_metrics) example_infos = take 2 example_infos"
    by (simp add: Score_pod_counts_def example_metrics_def example_infos_def int64_eval)
  then show ?thesis
    by (simp add: Score_pods_loop_sum example_infos_def example_pod_prediction)
qed

lemma example_last_sample:
  "filter is_cpu_sample example_samples = [example_samples ! 0, example_samples ! 2]"
  by (simp add: example_samples_def is_cpu_sample_def CPU_def Average_def Latest_def)

lemma example_recomputed:
  "fdiv (fmul 100 (fadd (fmul (fdiv 40 100) (float64_of_int64 4000)) (float64_of_int64 3100)))
     (float64_of_int64 4000) = 235 / 2"
proof -
  have c: "float64_of_int64 4000 = 4000" "float64_of_int64 3100 = 3100"
    by (simp_all add: float64_eval)
  have s: "binary64_round (1600 + 3100) = 4700" "binary64_round (100 * 4700) = 470000"
    by (simp_all add: binary64_round_numeral)
  show ?thesis
    by (simp only: fdiv_def fmul_def fadd_def c example_inexact s)
qed

lemma example_adjust:
  "Score_adjust 40 4000 3100 = 235 / 2"
  "Score_adjust 40 0 0 = 40"
  using example_recomputed
  by (simp_all add: Score_adjust_def Let_def float64_of_int64_def binary64_round_numeral)

lemma example_scores:
  "Score_thresholds amd64_conversion
     \<lparr>requestsMilliCores = 1000, hostLowCPUThreshold = 10, hostHighCPUThreshold = 30,
      requestsMultiplier = 3 / 2, keplerEnabled = False\<rparr> (235 / 2) s = 118"
  "Score_thresholds amd64_conversion
     \<lparr>requestsMilliCores = 1000, hostLowCPUThreshold = 10, hostHighCPUThreshold = 30,
      requestsMultiplier = 3 / 2, keplerEnabled = False\<rparr> 40 s = 40"
  by (simp_all add: Score_thresholds_def amd64_conversion_def float64_eval)

lemma example_node_a:
  "NodeInfos (pl_handle (example_plugin coll)) ''node-a''
     = Some \<lparr>Capacity = [ResourceCPU \<mapsto> Quantity 4000]\<rparr>"
  "ScheduledPodsCache (pl_eventHandler (example_plugin coll)) ''node-a'' = Some example_infos"
  "pl_collector (example_plugin coll) = coll"
  by (simp_all add: example_plugin_def)

lemma example_node_z:
  "NodeInfos (pl_handle (example_plugin coll)) ''node-z'' = Some \<lparr>Capacity = Map.empty\<rparr>"
  "ScheduledPodsCache (pl_eventHandler (example_plugin coll)) ''node-z'' = None"
  by (simp_all add: example_plugin_def)

text \<open>
  Of the four samples of the example the first and the third are taken, and the third,
  40, is used: with the capacity 4000 and the missing 3100 milli-units the utilisation is
  117.5 and the score 118.
\<close>

theorem Score_uses_last_cpu_sample_witness:
  "Score_metrics_loop example_samples (0, False) = (40, True) \<and>
   Score amd64_conversion (New_thresholds example_args example_vars)
     (example_plugin (\<lambda>n. (Some example_samples, example_metrics))) example_pod ''node-a''
     = (118, Some (NewStatus Success))"
proof -
  have s: "example_samples
      = [example_samples ! 0, example_samples ! 1] @ example_samples ! 2 # [example_samples ! 3]"
    by (simp add: example_samples_def)
  have c: "is_cpu_sample (example_samples ! 2)"
    and n: "\<forall>m \<in> set [example_samples ! 3]. \<not> is_cpu_sample m"
    by (simp_all add: example_samples_def is_cpu_sample_def CPU_def Average_def Latest_def)
  have v: "Value (example_samples ! 2) = 40"
    by (simp add: example_samples_def)
  note Score_uses_last_cpu_sample [where impl = amd64_conversion
      and g = "New_thresholds example_args example_vars" and pod = example_pod,
      OF example_node_a(1) _ c n,
      of "\<lambda>n. (Some example_samples, example_metrics)" "[example_samples ! 0, example_samples ! 1]"
        example_metrics]
  then show ?thesis
    unfolding s [symmetric] example_node_a v example_thresholds
    by (simp add: Cpu_def example_missing example_adjust example_scores)
qed

subsection \<open>The adjusted percentage\<close>

text \<open>
  Claim C7: for a node whose CPU capacity is zero milli-units \<open>Score\<close> leaves the
  percentage of the sample as it is, and the score is computed from it: the division by
  the capacity is not reached. For a node with another capacity the converted capacity is
  not zero either, and the percentage is recomputed as
  \<open>100 * (utilMillis + missingMillis) / capacityMillis\<close>, in float64.
\<close>

theorem Score_zero_capacity_keeps_percentage:
  assumes node: "NodeInfos (pl_handle pl) nodeName = Some nodeInfo"
    and coll: "pl_collector pl nodeName = (Some metrics, allMetrics)"
    and found: "filter is_cpu_sample metrics \<noteq> []"
    and util: "util = Value (last (filter is_cpu_sample metrics))"
    and cap: "capacityMillis
        = float64_of_int64 (MilliValue (Cpu (Capacity nodeInfo)))"
    and missing: "missingMillis = float64_of_int64
        (Score_pods_loop impl g allMetrics
           (case ScheduledPodsCache (pl_eventHandler pl) nodeName of
              None \<Rightarrow> [] | Some infos \<Rightarrow> infos) 0)"
    and millis: "utilMillis = fmul (fdiv util 100) capacityMillis"
  shows
    "(MilliValue (Cpu (Capacity nodeInfo)) = 0 \<longrightarrow>
        Score impl g pl pod nodeName =
          (Score_thresholds impl g util MinNodeScore, Some (NewStatus Success))) \<and>
     (MilliValue (Cpu (Capacity nodeInfo)) \<noteq> 0 \<longrightarrow>
        capacityMillis \<noteq> 0 \<and>
        Score impl g pl pod nodeName =
          (Score_thresholds impl g
             (fdiv
                (fmul 100 (fadd utilMillis missingMillis))
                capacityMillis)
             MinNodeScore,
           Some (NewStatus Success)))"
  by (simp add: Score_scored [OF node coll found] Score_adjust_def Let_def util cap missing millis
      float64_of_int64_eq_0_iff)

text \<open>
  On the node without capacity the sample 40 is the utilisation and the score. On the
  node with 4000 milli-units the division 40 / 100 is inexact, its product with 4000
  rounds to 1600, and the utilisation is \<open>100 * (1600 + 3100) / 4000\<close>, 117.5, with the
  score 118.
\<close>

theorem Score_zero_capacity_keeps_percentage_witness:
  "Score amd64_conversion (New_thresholds example_args example_vars)
     (example_plugin (\<lambda>n. (Some example_samples, example_metrics))) example_pod ''node-z''
     = (40, Some (NewStatus Success)) \<and>
   Score amd64_conversion (New_thresholds example_args example_vars)
     (example_plugin (\<lambda>n. (Some example_samples, example_metrics))) example_pod ''node-a''
     = (118, Some (NewStatus Success))"
proof -
  have f: "filter is_cpu_sample example_samples \<noteq> []"
    and v: "Value (last (filter is_cpu_sample example_samples)) = 40"
    by (simp_all add: example_last_sample) (simp add: example_samples_def)
  note t = Score_zero_capacity_keeps_percentage [where impl = amd64_conversion
      and g = "New_thresholds example_args example_vars" and pod = example_pod
      and pl = "example_plugin (\<lambda>n. (Some example_samples, example_metrics))",
      OF _ _ f refl refl refl refl]
  have "Score amd64_conversion (New_thresholds example_args example_vars)
     (example_plugin (\<lambda>n. (Some example_samples, example_metrics))) example_pod ''node-z''
     = (40, Some (NewStatus Success))"
    using t [OF example_node_z(1)]
    unfolding example_node_a example_node_z v example_thresholds
    by (simp add: Cpu_def example_scores)
  moreover have "Score amd64_conversion (New_thresholds example_args example_vars)
     (example_plugin (\<lambda>n. (Some example_samples, example_metrics))) example_pod ''node-a''
     = (118, Some (NewStatus Success))"
    using t [OF example_node_a(1)]
    unfolding example_node_a v example_thresholds
    by (simp add: Cpu_def example_missing example_recomputed example_scores)
  ultimately show ?thesis by simp
qed

subsection \<open>Monotonicity within a zone\<close>

lemma Score_thresholds_float:
  "\<not> keplerEnabled g \<Longrightarrow>
   Score_thresholds impl g util score
     = int64_of_float64 impl (Score_thresholds_float g util)"
  by (simp add: Score_thresholds_def Score_thresholds_float_def)

lemma Score_thresholds_float_Ints: "Score_thresholds_float g util \<in> \<int>"
  by (simp add: Score_thresholds_float_def math_Round_Ints)

lemma Score_thresholds_float_equal:
  assumes eq: "hostLowCPUThreshold g = hostHighCPUThreshold g"
    and u: "binary64_round util = util"
  shows "Score_thresholds_float g util = math_Round util"
  using eq u binary64_round_0
  by (auto simp add: Score_thresholds_float_def fadd_def float64_of_int64_def)

lemma Score_thresholds_float_band:
  assumes b: "0 \<le> sint (hostLowCPUThreshold g)"
           "sint (hostLowCPUThreshold g) \<le> sint (hostHighCPUThreshold g)"
           "sint (hostHighCPUThreshold g) \<le> 100"
  shows "Score_thresholds_float g util =
    (if real_of_int (sint (hostHighCPUThreshold g)) \<le> util
     then math_Round util
     else if util \<le> real_of_int (sint (hostLowCPUThreshold g))
     then math_Round (binary64_round (util +
            (real_of_int (sint (hostHighCPUThreshold g))
               - real_of_int (sint (hostLowCPUThreshold g)))))
     else math_Round (binary64_round (util - real_of_int (sint (hostLowCPUThreshold g)))))"
proof -
  have h: "float64_of_int64 (hostHighCPUThreshold g)
      = real_of_int (sint (hostHighCPUThreshold g))"
    using b by (intro float64_of_int64_small) simp
  have l: "float64_of_int64 (hostLowCPUThreshold g)
      = real_of_int (sint (hostLowCPUThreshold g))"
    using b by (intro float64_of_int64_small) simp
  have d: "float64_of_int64 (hostHighCPUThreshold g - hostLowCPUThreshold g)
      = real_of_int (sint (hostHighCPUThreshold g)) - real_of_int (sint (hostLowCPUThreshold g))"
    using b by (subst float64_of_int64_small) (simp_all add: sint_sub_no_overflow)
  show ?thesis
    by (simp add: Score_thresholds_float_def h l d fadd_def fsub_def)
qed

lemma Score_thresholds_float_mono:
  assumes u1: "binary64_round util1 = util1" and u2: "binary64_round util2 = util2"
    and le: "util1 \<le> util2"
    and lo: "lowT = real_of_int (sint (hostLowCPUThreshold (New_thresholds args g)))"
    and hi: "highT = real_of_int (sint (hostHighCPUThreshold (New_thresholds args g)))"
    and zone: "highT \<le> util1 \<and> highT \<le> util2 \<or> util1 \<le> lowT \<and> util2 \<le> lowT \<or>
      lowT < util1 \<and> util1 < highT \<and> lowT < util2 \<and> util2 < highT"
  shows "Score_thresholds_float (New_thresholds args g) util1
      \<le> Score_thresholds_float (New_thresholds args g) util2"
proof -
  let ?g = "New_thresholds args g"
  consider (eq) "hostLowCPUThreshold ?g = hostHighCPUThreshold ?g"
    | (band) "0 \<le> sint (hostLowCPUThreshold ?g)"
           "sint (hostLowCPUThreshold ?g) \<le> sint (hostHighCPUThreshold ?g)"
           "sint (hostHighCPUThreshold ?g) \<le> 100"
    using New_thresholds_cases [of args g] by blast
  then show ?thesis
  proof cases
    case eq
    show ?thesis
      using le by (simp add: Score_thresholds_float_equal [OF eq] u1 u2 math_Round_mono)
  next
    case band
    have le': "lowT \<le> highT" using band by (simp add: lo hi)
    have a: "math_Round (binary64_round (util1 + (highT - lowT)))
        \<le> math_Round (binary64_round (util2 + (highT - lowT)))"
      using le by (intro math_Round_mono binary64_round_mono) simp
    have s: "math_Round (binary64_round (util1 - lowT)) \<le> math_Round (binary64_round (util2 - lowT))"
      using le by (intro math_Round_mono binary64_round_mono) simp
    have m: "math_Round util1 \<le> math_Round util2"
      using le by (rule math_Round_mono)
    have z: "binary64_round (util + (highT - lowT)) = util" if "highT \<le> util" "util \<le> lowT" for util
    proof -
      have "highT - lowT = 0" "util = highT" using that le' by simp_all
      then show ?thesis using binary64_round_int [of "sint (hostHighCPUThreshold ?g)"] band
        by (simp add: hi)
    qed
    show ?thesis
      using zone le le' a s m z [of util1] z [of util2]
      by (auto simp add: Score_thresholds_float_band [OF band] lo [symmetric] hi [symmetric])
  qed
qed

text \<open>
  Claim C8, amended: with the thresholds that \<open>New\<close> leaves, and for float64 utilisations
  util1 \<open>\<le>\<close> util2 of the same zone (both at least highT, both at most lowT, or both
  strictly between), the score at util1 is at most the score at util2, provided that the
  two rounded values fit into int64, so that their conversion is defined.
\<close>

theorem Score_thresholds_monotone_in_zone:
  assumes k: "\<not> keplerEnabled g"
    and u1: "binary64_round util1 = util1" and u2: "binary64_round util2 = util2"
    and le: "util1 \<le> util2"
    and lo: "lowT = real_of_int (sint (hostLowCPUThreshold (New_thresholds args g)))"
    and hi: "highT = real_of_int (sint (hostHighCPUThreshold (New_thresholds args g)))"
    and zone: "highT \<le> util1 \<and> highT \<le> util2 \<or> util1 \<le> lowT \<and> util2 \<le> lowT \<or>
      lowT < util1 \<and> util1 < highT \<and> lowT < util2 \<and> util2 < highT"
    and f1: "fits_int64 (Score_thresholds_float (New_thresholds args g) util1)"
    and f2: "fits_int64 (Score_thresholds_float (New_thresholds args g) util2)"
  shows "Score_thresholds impl (New_thresholds args g) util1 score
      \<le>s Score_thresholds impl (New_thresholds args g) util2 score"
proof -
  have k': "\<not> keplerEnabled (New_thresholds args g)" using k by (simp add: New_thresholds_kepler)
  show ?thesis
    unfolding Score_thresholds_float [OF k']
    by (intro int64_of_float64_sle Score_thresholds_float_Ints f1 f2
        Score_thresholds_float_mono [OF u1 u2 le lo hi zone])
qed

lemma example_floats:
  "Score_thresholds_float
     \<lparr>requestsMilliCores = 1000, hostLowCPUThreshold = 10, hostHighCPUThreshold = 30,
      requestsMultiplier = 3 / 2, keplerEnabled = False\<rparr> 40 = 40"
  "Score_thresholds_float
     \<lparr>requestsMilliCores = 1000, hostLowCPUThreshold = 10, hostHighCPUThreshold = 30,
      requestsMultiplier = 3 / 2, keplerEnabled = False\<rparr> 95 = 95"
  by (simp_all add: Score_thresholds_float_def amd64_conversion_def float64_eval)

text \<open>In the high zone of the thresholds 10 and 30: 40 scores 40, 95 scores 95.\<close>

theorem Score_thresholds_monotone_in_zone_witness:
  "Score_thresholds amd64_conversion (New_thresholds example_args example_vars) 40 0
     \<le>s Score_thresholds amd64_conversion (New_thresholds example_args example_vars) 95 0 \<and>
   Score_thresholds amd64_conversion (New_thresholds example_args example_vars) 40 0 = 40 \<and>
   Score_thresholds amd64_conversion (New_thresholds example_args example_vars) 95 0 = 95"
proof -
  have k: "\<not> keplerEnabled example_vars" by (simp add: example_vars_def)
  have u: "binary64_round 40 = 40" "binary64_round 95 = 95"
    by (simp_all add: binary64_round_numeral)
  have z: "real_of_int (sint (hostHighCPUThreshold (New_thresholds example_args example_vars))) \<le> 40 \<and>
      real_of_int (sint (hostHighCPUThreshold (New_thresholds example_args example_vars))) \<le> 95 \<or>
      40 \<le> real_of_int (sint (hostLowCPUThreshold (New_thresholds example_args example_vars))) \<and>
      95 \<le> real_of_int (sint (hostLowCPUThreshold (New_thresholds example_args example_vars))) \<or>
      real_of_int (sint (hostLowCPUThreshold (New_thresholds example_args example_vars))) < 40 \<and>
      40 < real_of_int (sint (hostHighCPUThreshold (New_thresholds example_args example_vars))) \<and>
      real_of_int (sint (hostLowCPUThreshold (New_thresholds example_args example_vars))) < 95 \<and>
      95 < real_of_int (sint (hostHighCPUThreshold (New_thresholds example_args example_vars)))"
    by (simp add: example_thresholds)
  have f: "fits_int64 (Score_thresholds_float
        (New_thresholds example_args example_vars) 40)"
      "fits_int64 (Score_thresholds_float
        (New_thresholds example_args example_vars) 95)"
    by (simp_all add: example_thresholds example_floats fits_int64_def)
  have "Score_thresholds amd64_conversion (New_thresholds example_args example_vars) 40 0
     \<le>s Score_thresholds amd64_conversion (New_thresholds example_args example_vars) 95 0"
    by (rule Score_thresholds_monotone_in_zone [OF k u _ refl refl z f])
       simp
  then show ?thesis
    by (simp add: example_thresholds Score_thresholds_def amd64_conversion_def float64_eval)
qed

text \<open>
  Claim C8 as it stands fails where the rounded utilisation does not fit into int64 and
  the conversion returns the smallest int64, as it does on amd64: with the thresholds 10
  and 30 the utilisations 100 and \<open>2 ^ 63\<close> are both in the high zone, 100 scores 100 and
  \<open>2 ^ 63\<close> scores \<open>- (2 ^ 63)\<close>.
\<close>

theorem Score_thresholds_not_monotone_counterexample:
  "Score_thresholds amd64_conversion (New_thresholds example_args example_vars) 100 0 = 100 \<and>
   Score_thresholds amd64_conversion (New_thresholds example_args example_vars) (2 ^ 63) 0
     = word_of_int (- (2 ^ 63)) \<and>
   \<not> (Score_thresholds amd64_conversion (New_thresholds example_args example_vars) 100 0
        \<le>s Score_thresholds amd64_conversion (New_thresholds example_args example_vars) (2 ^ 63) 0)"
  by (simp add: example_thresholds Score_thresholds_def amd64_conversion_def float64_eval
      word_sle_eq)

end
